theory Spec2Isabelle
  imports Main "HOL-Library.Sublist"
begin

section \<open>Values: bytes, text, exceptions\<close>

text \<open>
  The module under study is \<^verbatim>\<open>httpie/output/writer.py\<close>. A Python \<^verbatim>\<open>bytes\<close> object is a
  list of 8-bit characters, a Python \<^verbatim>\<open>str\<close> a list of Unicode code points. An exception is
  a value; \<^verbatim>\<open>IOError\<close> carries its \<^verbatim>\<open>errno\<close> attribute, which may be \<^verbatim>\<open>None\<close>.
\<close>

type_synonym bytes = "char list"

type_synonym pystr = "nat list"

datatype exn =
    IOError "int option"
  | AttributeError
  | KeyError
  | IndexError
  | TypeError
  | UnicodeDecodeError
  | UnicodeEncodeError
  | OtherException string

text \<open>\<^verbatim>\<open>errno.EPIPE\<close>.\<close>

definition EPIPE :: int where
  "EPIPE = 32"

text \<open>\<^verbatim>\<open>MESSAGE_SEPARATOR = '\n\n'\<close> and its encoding \<^verbatim>\<open>MESSAGE_SEPARATOR_BYTES\<close>.\<close>

definition MESSAGE_SEPARATOR :: pystr where
  "MESSAGE_SEPARATOR = [10, 10]"

definition MESSAGE_SEPARATOR_BYTES :: bytes where
  "MESSAGE_SEPARATOR_BYTES = [CHR 0x0A, CHR 0x0A]"

section \<open>Output sinks\<close>

text \<open>
  A codec is what an encoding name stands for: \<^verbatim>\<open>bytes.decode(encoding)\<close> and
  \<^verbatim>\<open>str.encode(encoding)\<close>, both in strict mode, both able to raise.
\<close>

record codec =
  decode :: "bytes \<Rightarrow> exn + pystr"
  encode :: "pystr \<Rightarrow> exn + bytes"

text \<open>
  What reaches a file object: a \<^verbatim>\<open>write\<close> on the object itself or on its \<^verbatim>\<open>.buffer\<close>, with
  bytes or with text, or a \<^verbatim>\<open>flush\<close>.
\<close>

datatype payload = Bytes bytes | Text pystr

datatype handle = Outfile | Buffer

datatype event = Write handle payload | Flush

text \<open>
  A file object: whether it has a \<^verbatim>\<open>buffer\<close> attribute, its \<^verbatim>\<open>encoding\<close> attribute (absent
  for a byte stream), the calls it has accepted so far, in order, and how it will answer
  the calls to come: \<open>None\<close> accepts the call, \<open>Some x\<close> raises \<open>x\<close> and accepts nothing. Once
  that list is used up every call is accepted. The text handle and its buffer are one
  sink, so they share the list.
\<close>

record sink =
  has_buffer :: bool
  encoding :: "codec option"
  written :: "event list"
  pending :: "exn option list"

definition sink_op :: "event \<Rightarrow> sink \<Rightarrow> (exn + unit) \<times> sink" where
  "sink_op ev s =
     (case pending s of
        [] \<Rightarrow> (Inr (), s\<lparr>written := written s @ [ev]\<rparr>)
      | None # rest \<Rightarrow> (Inr (), s\<lparr>written := written s @ [ev], pending := rest\<rparr>)
      | Some x # rest \<Rightarrow> (Inl x, s\<lparr>pending := rest\<rparr>))"

text \<open>Whether the sink accepts the next call made on it.\<close>

definition accepts :: "sink \<Rightarrow> bool" where
  "accepts s = (case pending s of Some x # rest \<Rightarrow> False | _ \<Rightarrow> True)"

text \<open>
  File objects live in a store, addressed by identity: \<^verbatim>\<open>env.stdout\<close> and \<^verbatim>\<open>env.stderr\<close>
  may be one object (the source notes that \<^verbatim>\<open>env.stdout\<close> is \<^verbatim>\<open>stderr\<close> with
  \<^verbatim>\<open>--download\<close>).
\<close>

type_synonym world = "nat \<Rightarrow> sink"

section \<open>Environment, arguments, messages\<close>

record environment =
  stdout :: nat
  stderr :: nat
  stdout_isatty :: bool
  is_windows :: bool

text \<open>The attributes of \<^verbatim>\<open>args\<close> (an \<^verbatim>\<open>argparse.Namespace\<close>) that the module reads.\<close>

record namespace =
  prettify :: "string list"
  stream :: bool
  debug :: bool
  traceback :: bool
  output_format_form :: "string option"
  style :: string
  json :: bool
  format_options :: "(string \<times> string) list"

text \<open>
  A \<^verbatim>\<open>requests\<close> message: its exact type (the producers look it up with \<^verbatim>\<open>type(...)\<close>), the
  attribute \<^verbatim>\<open>is_body_upload_chunk\<close> when it has one, and its content.
\<close>

datatype py_type = PreparedRequest | Response | OtherType string

record requests_message =
  msg_type :: py_type
  is_body_upload_chunk :: "bool option"
  headers :: bytes
  body :: bytes

datatype http_message =
    HTTPRequest requests_message
  | HTTPResponse requests_message
  | HTTPRequestJson requests_message
  | HTTPResponseJson requests_message

section \<open>The selector\<close>

datatype stream_class =
    RawStream
  | BaseStreamJson
  | PrettyStream
  | BufferedPrettyStream
  | EncodedStream

text \<open>
  \<^verbatim>\<open>RawStream.CHUNK_SIZE_BY_LINE\<close> and \<^verbatim>\<open>RawStream.CHUNK_SIZE\<close> are class attributes of
  \<^verbatim>\<open>httpie.output.streams\<close>; the selector passes them on by name.
\<close>

datatype chunk_size = CHUNK_SIZE_BY_LINE | CHUNK_SIZE

text \<open>
  \<^verbatim>\<open>Formatting(env=, groups=, color_scheme=, explicit_json=, format_options=)\<close> and
  \<^verbatim>\<open>Conversion()\<close>, as the data they are built from.
\<close>

datatype formatting =
  Formatting environment "string list" string bool "(string \<times> string) list"

datatype pyval =
    PyNone
  | PyBool bool
  | PyChunkSize chunk_size
  | PyEnv environment
  | PyConversion
  | PyFormatting formatting
  | PyMessage http_message

type_synonym kwargs = "(string \<times> pyval) list"

definition get_stream_type_and_kwargs :: "environment \<Rightarrow> namespace \<Rightarrow> stream_class \<times> kwargs" where
  "get_stream_type_and_kwargs env args =
     (if \<not> stdout_isatty env \<and> prettify args = [] then
        (RawStream,
         [(''chunk_size'',
           PyChunkSize (if stream args then CHUNK_SIZE_BY_LINE else CHUNK_SIZE))])
      else if output_format_form args = Some ''JSON'' then
        (BaseStreamJson, [(''on_body_chunk_downloaded'', PyNone)])
      else if prettify args \<noteq> [] then
        (if stream args then PrettyStream else BufferedPrettyStream,
         [(''env'', PyEnv env),
          (''conversion'', PyConversion),
          (''formatting'',
           PyFormatting
             (Formatting env (prettify args) (style args) (json args) (format_options args)))])
      else
        (EncodedStream, [(''env'', PyEnv env)]))"

section \<open>The producers\<close>

text \<open>
  A lazy chunk sequence, as a generator gives it: the chunks it yields, in order, and
  the exception that ends it, if one does. The consumer sees the chunks before it sees
  the exception.
\<close>

type_synonym lazy_stream = "bytes list \<times> exn option"

text \<open>
  The stream classes themselves (\<^verbatim>\<open>httpie/output/streams.py\<close>) are not part of the module:
  what constructing a class with given keyword arguments and iterating the object
  yields is a parameter \<open>S\<close> of everything below.
\<close>

type_synonym stream_classes = "stream_class \<Rightarrow> kwargs \<Rightarrow> lazy_stream"

text \<open>
  The two dictionaries indexed with \<^verbatim>\<open>type(requests_message)\<close>; a type that is not a key
  raises \<^verbatim>\<open>KeyError\<close>.
\<close>

definition message_class :: "py_type \<Rightarrow> exn + (requests_message \<Rightarrow> http_message)" where
  "message_class t =
     (case t of
        PreparedRequest \<Rightarrow> Inr HTTPRequest
      | Response \<Rightarrow> Inr HTTPResponse
      | OtherType n \<Rightarrow> Inl KeyError)"

definition message_class_json :: "py_type \<Rightarrow> exn + (requests_message \<Rightarrow> http_message)" where
  "message_class_json t =
     (case t of
        PreparedRequest \<Rightarrow> Inr HTTPRequestJson
      | Response \<Rightarrow> Inr HTTPResponseJson
      | OtherType n \<Rightarrow> Inl KeyError)"

text \<open>\<^verbatim>\<open>xs[i]\<close> for \<open>i \<ge> 0\<close>: out of range raises \<^verbatim>\<open>IndexError\<close>.\<close>

definition py_index :: "'a list \<Rightarrow> nat \<Rightarrow> exn + 'a" where
  "py_index xs i = (if i < length xs then Inr (xs ! i) else Inl IndexError)"

text \<open>\<^verbatim>\<open>getattr(requests_message, 'is_body_upload_chunk', False)\<close>.\<close>

definition getattr_is_body_upload_chunk :: "requests_message \<Rightarrow> bool" where
  "getattr_is_body_upload_chunk m =
     (case is_body_upload_chunk m of None \<Rightarrow> False | Some b \<Rightarrow> b)"

definition build_output_stream_for_message ::
  "stream_classes \<Rightarrow> namespace \<Rightarrow> environment \<Rightarrow> requests_message \<Rightarrow> bool \<Rightarrow> bool \<Rightarrow> lazy_stream"
where
  "build_output_stream_for_message S args env requests_message with_headers with_body =
     (case get_stream_type_and_kwargs env args of
        (stream_class, stream_kwargs) \<Rightarrow>
          (case message_class (msg_type requests_message) of
             Inl e \<Rightarrow> ([], Some e)
           | Inr mk \<Rightarrow>
               (case S stream_class
                       ([(''msg'', PyMessage (mk requests_message)),
                         (''with_headers'', PyBool with_headers),
                         (''with_body'', PyBool with_body)] @ stream_kwargs) of
                  (chunks, Some e) \<Rightarrow> (chunks, Some e)
                | (chunks, None) \<Rightarrow>
                    (if stdout_isatty env \<and> with_body
                        \<and> \<not> getattr_is_body_upload_chunk requests_message
                     then (chunks @ [MESSAGE_SEPARATOR_BYTES], None)
                     else (chunks, None)))))"

definition build_output_stream_for_message_json ::
  "stream_classes \<Rightarrow> namespace \<Rightarrow> environment \<Rightarrow> requests_message list
     \<Rightarrow> bool \<Rightarrow> bool \<Rightarrow> bool \<Rightarrow> bool \<Rightarrow> lazy_stream"
where
  "build_output_stream_for_message_json S args env requests_message
       with_headers_req with_body_req with_headers_res with_body_res =
     (case get_stream_type_and_kwargs env args of
        (stream_class, stream_kwargs) \<Rightarrow>
          (case py_index requests_message 0 of
             Inl e \<Rightarrow> ([], Some e)
           | Inr m0 \<Rightarrow>
          (case message_class_json (msg_type m0) of
             Inl e \<Rightarrow> ([], Some e)
           | Inr mk \<Rightarrow>
          (case py_index requests_message 1 of
             Inl e \<Rightarrow> ([], Some e)
           | Inr m1 \<Rightarrow>
          (case message_class_json (msg_type m1) of
             Inl e \<Rightarrow> ([], Some e)
           | Inr mk2 \<Rightarrow>
               S stream_class
                 ([(''msgReq'', PyMessage (mk m0)),
                   (''msgRes'', PyMessage (mk2 m1)),
                   (''with_headers_req'', PyBool with_headers_req),
                   (''with_body_req'', PyBool with_body_req),
                   (''with_headers_res'', PyBool with_headers_res),
                   (''with_body_res'', PyBool with_body_res)] @ stream_kwargs))))))"

section \<open>The writers\<close>

text \<open>
  \<^verbatim>\<open>for chunk in stream: buf.write(chunk); if flush: outfile.flush()\<close>. A call that raises
  ends the loop; the exception that ends the stream is raised once its chunks are
  written.
\<close>

fun write_stream_loop :: "handle \<Rightarrow> bool \<Rightarrow> bytes list \<Rightarrow> sink \<Rightarrow> (exn + unit) \<times> sink" where
  "write_stream_loop buf flush [] s = (Inr (), s)"
| "write_stream_loop buf flush (chunk # chunks) s =
     (case sink_op (Write buf (Bytes chunk)) s of
        (Inl x, s1) \<Rightarrow> (Inl x, s1)
      | (Inr u, s1) \<Rightarrow>
          (if flush then
             (case sink_op Flush s1 of
                (Inl x, s2) \<Rightarrow> (Inl x, s2)
              | (Inr u2, s2) \<Rightarrow> write_stream_loop buf flush chunks s2)
           else write_stream_loop buf flush chunks s1))"

definition write_stream :: "lazy_stream \<Rightarrow> sink \<Rightarrow> bool \<Rightarrow> (exn + unit) \<times> sink" where
  "write_stream strm outfile flush =
     (let buf = (if has_buffer outfile then Buffer else Outfile) in
      case write_stream_loop buf flush (fst strm) outfile of
        (Inl x, s) \<Rightarrow> (Inl x, s)
      | (Inr u, s) \<Rightarrow> (case snd strm of None \<Rightarrow> (Inr (), s) | Some x \<Rightarrow> (Inl x, s)))"

fun write_stream_json_loop :: "handle \<Rightarrow> bool \<Rightarrow> bytes list \<Rightarrow> sink \<Rightarrow> (exn + unit) \<times> sink" where
  "write_stream_json_loop buf flush [] s = (Inr (), s)"
| "write_stream_json_loop buf flush (chunk # chunks) s =
     (case sink_op (Write buf (Bytes chunk)) s of
        (Inl x, s1) \<Rightarrow> (Inl x, s1)
      | (Inr u, s1) \<Rightarrow>
          (if flush then
             (case sink_op Flush s1 of
                (Inl x, s2) \<Rightarrow> (Inl x, s2)
              | (Inr u2, s2) \<Rightarrow> write_stream_json_loop buf flush chunks s2)
           else write_stream_json_loop buf flush chunks s1))"

definition write_stream_json :: "lazy_stream \<Rightarrow> sink \<Rightarrow> bool \<Rightarrow> (exn + unit) \<times> sink" where
  "write_stream_json strm outfile flush =
     (let buf = (if has_buffer outfile then Buffer else Outfile) in
      case write_stream_json_loop buf flush (fst strm) outfile of
        (Inl x, s) \<Rightarrow> (Inl x, s)
      | (Inr u, s) \<Rightarrow> (case snd strm of None \<Rightarrow> (Inr (), s) | Some x \<Rightarrow> (Inl x, s)))"

text \<open>\<^verbatim>\<open>color = b'\x1b['\<close>; \<^verbatim>\<open>color in chunk\<close> is \<open>sublist color chunk\<close>.\<close>

definition color :: bytes where
  "color = [CHR 0x1B, CHR ''['']"

text \<open>
  One round of the loop of \<^verbatim>\<open>write_stream_with_colors_win_py3\<close>. \<^verbatim>\<open>outfile.buffer\<close> is read
  without a guard there: a file object with no such attribute raises
  \<^verbatim>\<open>AttributeError\<close>.
\<close>

definition write_colors_chunk :: "codec \<Rightarrow> bytes \<Rightarrow> sink \<Rightarrow> (exn + unit) \<times> sink" where
  "write_colors_chunk enc chunk s =
     (if sublist color chunk then
        (case decode enc chunk of
           Inl x \<Rightarrow> (Inl x, s)
         | Inr t \<Rightarrow> sink_op (Write Outfile (Text t)) s)
      else if has_buffer s then sink_op (Write Buffer (Bytes chunk)) s
      else (Inl AttributeError, s))"

fun write_colors_loop :: "codec \<Rightarrow> bool \<Rightarrow> bytes list \<Rightarrow> sink \<Rightarrow> (exn + unit) \<times> sink" where
  "write_colors_loop enc flush [] s = (Inr (), s)"
| "write_colors_loop enc flush (chunk # chunks) s =
     (case write_colors_chunk enc chunk s of
        (Inl x, s1) \<Rightarrow> (Inl x, s1)
      | (Inr u, s1) \<Rightarrow>
          (if flush then
             (case sink_op Flush s1 of
                (Inl x, s2) \<Rightarrow> (Inl x, s2)
              | (Inr u2, s2) \<Rightarrow> write_colors_loop enc flush chunks s2)
           else write_colors_loop enc flush chunks s1))"

definition write_stream_with_colors_win_py3 ::
  "lazy_stream \<Rightarrow> sink \<Rightarrow> bool \<Rightarrow> (exn + unit) \<times> sink"
where
  "write_stream_with_colors_win_py3 strm outfile flush =
     (case encoding outfile of
        None \<Rightarrow> (Inl AttributeError, outfile)
      | Some enc \<Rightarrow>
          (case write_colors_loop enc flush (fst strm) outfile of
             (Inl x, s) \<Rightarrow> (Inl x, s)
           | (Inr u, s) \<Rightarrow> (case snd strm of None \<Rightarrow> (Inr (), s) | Some x \<Rightarrow> (Inl x, s))))"

section \<open>The entry points\<close>

text \<open>
  The result is \<open>Inr ()\<close> when the call returns and \<open>Inl x\<close> when it raises \<open>x\<close>; the
  store is the one the call leaves behind either way. The generator handed to the
  writer runs inside the \<^verbatim>\<open>try\<close> block, so what the producer raises meets the same
  \<^verbatim>\<open>except IOError\<close> clause.
\<close>

definition write_message ::
  "stream_classes \<Rightarrow> requests_message \<Rightarrow> environment \<Rightarrow> namespace \<Rightarrow> bool \<Rightarrow> bool
     \<Rightarrow> world \<Rightarrow> (exn + unit) \<times> world"
where
  "write_message S requests_message env args with_headers with_body w =
     (if \<not> (with_body \<or> with_headers) then (Inr (), w)
      else
        (let strm = build_output_stream_for_message S args env requests_message
                      with_headers with_body;
             outfile = stdout env;
             flush = (stdout_isatty env \<or> stream args)
         in case (if is_windows env \<and> ''colors'' \<in> set (prettify args)
                  then write_stream_with_colors_win_py3 strm (w outfile) flush
                  else write_stream strm (w outfile) flush) of
              (Inr u, s) \<Rightarrow> (Inr (), w(outfile := s))
            | (Inl (IOError e), s) \<Rightarrow>
                (let show_traceback = (debug args \<or> traceback args);
                     w1 = w(outfile := s)
                 in if \<not> show_traceback \<and> e = Some EPIPE then
                      (case sink_op (Write Outfile (Text [10])) (w1 (stderr env)) of
                         (r, s2) \<Rightarrow> (r, w1(stderr env := s2)))
                    else (Inl (IOError e), w1))
            | (Inl x, s) \<Rightarrow> (Inl x, w(outfile := s))))"

definition write_message_json ::
  "stream_classes \<Rightarrow> requests_message list \<Rightarrow> environment \<Rightarrow> namespace
     \<Rightarrow> bool \<Rightarrow> bool \<Rightarrow> bool \<Rightarrow> bool \<Rightarrow> world \<Rightarrow> (exn + unit) \<times> world"
where
  "write_message_json S requests_message env args
       with_headers_req with_body_req with_headers_res with_body_res w =
     (if \<not> (with_body_req \<or> with_headers_req \<or> with_body_res \<or> with_headers_res)
      then (Inr (), w)
      else
        (let strm = build_output_stream_for_message_json S args env requests_message
                      with_headers_req with_body_req with_headers_res with_body_res;
             outfile = stdout env;
             flush = (stdout_isatty env \<or> stream args)
         in case write_stream_json strm (w outfile) flush of
              (Inr u, s) \<Rightarrow> (Inr (), w(outfile := s))
            | (Inl (IOError e), s) \<Rightarrow>
                (let show_traceback = (debug args \<or> traceback args);
                     w1 = w(outfile := s)
                 in if \<not> show_traceback \<and> e = Some EPIPE then
                      (case sink_op (Write Outfile (Text [10])) (w1 (stderr env)) of
                         (r, s2) \<Rightarrow> (r, w1(stderr env := s2)))
                    else (Inl (IOError e), w1))
            | (Inl x, s) \<Rightarrow> (Inl x, w(outfile := s))))"

section \<open>Codecs\<close>





text \<open>
  UTF-8 as Python decodes it: shortest form only, no surrogates, nothing above
  \<^verbatim>\<open>U+10FFFF\<close>. The second byte of a three- or four-byte sequence is bounded by the
  first.
\<close>

definition cons_cp :: "nat \<Rightarrow> exn + pystr \<Rightarrow> exn + pystr" where
  "cons_cp c r = (case r of Inl x \<Rightarrow> Inl x | Inr t \<Rightarrow> Inr (c # t))"

definition is_cont :: "char \<Rightarrow> bool" where
  "is_cont b = (0x80 \<le> (of_char b :: nat) \<and> (of_char b :: nat) \<le> 0xBF)"

fun utf_8_decode :: "bytes \<Rightarrow> exn + pystr" where
  "utf_8_decode [] = Inr []"
| "utf_8_decode (b0 # bs) =
     (let n0 = (of_char b0 :: nat) in
      if n0 < 0x80 then cons_cp n0 (utf_8_decode bs)
      else if 0xC2 \<le> n0 \<and> n0 \<le> 0xDF then
        (case bs of
           b1 # r \<Rightarrow>
             if is_cont b1
             then cons_cp ((n0 - 0xC0) * 64 + (of_char b1 - 0x80)) (utf_8_decode r)
             else Inl UnicodeDecodeError
         | _ \<Rightarrow> Inl UnicodeDecodeError)
      else if 0xE0 \<le> n0 \<and> n0 \<le> 0xEF then
        (case bs of
           b1 # b2 # r \<Rightarrow>
             if (if n0 = 0xE0 then 0xA0 else 0x80) \<le> (of_char b1 :: nat)
                \<and> (of_char b1 :: nat) \<le> (if n0 = 0xED then 0x9F else 0xBF)
                \<and> is_cont b2
             then cons_cp ((n0 - 0xE0) * 4096 + (of_char b1 - 0x80) * 64 + (of_char b2 - 0x80))
                    (utf_8_decode r)
             else Inl UnicodeDecodeError
         | _ \<Rightarrow> Inl UnicodeDecodeError)
      else if 0xF0 \<le> n0 \<and> n0 \<le> 0xF4 then
        (case bs of
           b1 # b2 # b3 # r \<Rightarrow>
             if (if n0 = 0xF0 then 0x90 else 0x80) \<le> (of_char b1 :: nat)
                \<and> (of_char b1 :: nat) \<le> (if n0 = 0xF4 then 0x8F else 0xBF)
                \<and> is_cont b2 \<and> is_cont b3
             then cons_cp ((n0 - 0xF0) * 262144 + (of_char b1 - 0x80) * 4096
                            + (of_char b2 - 0x80) * 64 + (of_char b3 - 0x80))
                    (utf_8_decode r)
             else Inl UnicodeDecodeError
         | _ \<Rightarrow> Inl UnicodeDecodeError)
      else Inl UnicodeDecodeError)"

text \<open>
  A Python \<^verbatim>\<open>str\<close> holds code points up to \<^verbatim>\<open>U+10FFFF\<close>; a surrogate does not encode in
  strict mode. A number above that range is no code point and is refused as well.
\<close>

definition utf_8_encode_cp :: "nat \<Rightarrow> exn + bytes" where
  "utf_8_encode_cp c =
     (if c < 0x80 then Inr [char_of c]
      else if c < 0x800 then Inr [char_of (0xC0 + c div 64), char_of (0x80 + c mod 64)]
      else if c < 0x10000 then
        (if 0xD800 \<le> c \<and> c \<le> 0xDFFF then Inl UnicodeEncodeError
         else Inr [char_of (0xE0 + c div 4096), char_of (0x80 + c div 64 mod 64),
                   char_of (0x80 + c mod 64)])
      else if c < 0x110000 then
        Inr [char_of (0xF0 + c div 262144), char_of (0x80 + c div 4096 mod 64),
             char_of (0x80 + c div 64 mod 64), char_of (0x80 + c mod 64)]
      else Inl UnicodeEncodeError)"

fun utf_8_encode :: "pystr \<Rightarrow> exn + bytes" where
  "utf_8_encode [] = Inr []"
| "utf_8_encode (c # cs) =
     (case utf_8_encode_cp c of
        Inl x \<Rightarrow> Inl x
      | Inr bs \<Rightarrow> (case utf_8_encode cs of Inl x \<Rightarrow> Inl x | Inr r \<Rightarrow> Inr (bs @ r)))"






definition utf_8 :: codec where
  "utf_8 = \<lparr>decode = utf_8_decode, encode = utf_8_encode\<rparr>"


section \<open>Stream classes for the examples\<close>

text \<open>Reading a keyword argument that is a message, or a truth value.\<close>

definition kw_message :: "kwargs \<Rightarrow> string \<Rightarrow> http_message option" where
  "kw_message kw k = (case map_of kw k of Some (PyMessage m) \<Rightarrow> Some m | _ \<Rightarrow> None)"

definition kw_bool :: "kwargs \<Rightarrow> string \<Rightarrow> bool option" where
  "kw_bool kw k = (case map_of kw k of Some (PyBool b) \<Rightarrow> Some b | _ \<Rightarrow> None)"

definition message_of :: "http_message \<Rightarrow> requests_message" where
  "message_of m =
     (case m of
        HTTPRequest r \<Rightarrow> r
      | HTTPResponse r \<Rightarrow> r
      | HTTPRequestJson r \<Rightarrow> r
      | HTTPResponseJson r \<Rightarrow> r)"

text \<open>
  Modelled from the spec: how a stream object of \<^verbatim>\<open>httpie/output/streams.py\<close> (not among
  the sources) renders one message. The spec (4.2) has it emit the headers first, if
  requested, as one chunk, and then the body; the body is one chunk here.
\<close>

definition render_message :: "http_message \<Rightarrow> bool \<Rightarrow> bool \<Rightarrow> bytes list" where
  "render_message m with_headers with_body =
     (if with_headers then [headers (message_of m)] else [])
     @ (if with_body then [body (message_of m)] else [])"

text \<open>
  Modelled from the spec: the stream classes of \<^verbatim>\<open>httpie/output/streams.py\<close>, which are
  not among the sources. Called with one message, a class renders it; called with a
  request and response pair, it formats the first message fully, then the second,
  under the one class chosen (spec, 4.2 and 9). Every class is given this one
  rendering, and a call with neither set of keyword arguments raises \<^verbatim>\<open>TypeError\<close>. The
  results below hold for every \<open>S\<close>; this instance only supplies concrete runs and is
  no statement about the constructors of the real classes.
\<close>

definition spec_streams :: stream_classes where
  "spec_streams cls kw =
     (case (kw_message kw ''msg'', kw_bool kw ''with_headers'', kw_bool kw ''with_body'') of
        (Some m, Some h, Some b) \<Rightarrow> (render_message m h b, None)
      | _ \<Rightarrow>
        (case (kw_message kw ''msgReq'', kw_message kw ''msgRes'') of
           (Some m1, Some m2) \<Rightarrow>
             (case (kw_bool kw ''with_headers_req'', kw_bool kw ''with_body_req'',
                    kw_bool kw ''with_headers_res'', kw_bool kw ''with_body_res'') of
                (Some h1, Some b1, Some h2, Some b2) \<Rightarrow>
                  (render_message m1 h1 b1 @ render_message m2 h2 b2, None)
              | _ \<Rightarrow> ([], Some TypeError))
         | _ \<Rightarrow> ([], Some TypeError)))"

section \<open>Reading a trace, and inputs for the examples\<close>


text \<open>
  A fresh text-mode file object with a buffer, an environment with two distinct file
  objects, an argument namespace, a request and a response.
\<close>

definition fresh_sink :: "codec \<Rightarrow> exn option list \<Rightarrow> sink" where
  "fresh_sink enc faults =
     \<lparr>has_buffer = True, encoding = Some enc, written = [], pending = faults\<rparr>"

definition sample_env :: "bool \<Rightarrow> bool \<Rightarrow> environment" where
  "sample_env tty win = \<lparr>stdout = 1, stderr = 2, stdout_isatty = tty, is_windows = win\<rparr>"

definition sample_args :: "string list \<Rightarrow> bool \<Rightarrow> string option \<Rightarrow> bool \<Rightarrow> namespace" where
  "sample_args grps strm form dbg =
     \<lparr>prettify = grps, stream = strm, debug = dbg, traceback = False,
      output_format_form = form, style = ''auto'', json = False, format_options = []\<rparr>"

definition sample_request :: requests_message where
  "sample_request =
     \<lparr>msg_type = PreparedRequest, is_body_upload_chunk = None,
      headers = ''GET / HTTP/1.1'', body = ''ping''\<rparr>"

definition sample_response :: "bytes \<Rightarrow> requests_message" where
  "sample_response b =
     \<lparr>msg_type = Response, is_body_upload_chunk = None,
      headers = ''HTTP/1.1 200 OK'', body = b\<rparr>"

section \<open>The selector is a first-match decision\<close>

text \<open>
  C1. \<^verbatim>\<open>get_stream_type_and_kwargs\<close> decides by first match. (1) Output not a terminal
  and no prettify group: \<^verbatim>\<open>RawStream\<close>, with \<^verbatim>\<open>chunk_size\<close> the by-line constant when
  \<^verbatim>\<open>args.stream\<close> is set and the block constant otherwise. (2) Else, JSON form requested:
  \<^verbatim>\<open>BaseStreamJson\<close> with \<^verbatim>\<open>on_body_chunk_downloaded=None\<close>. (3) Else, some prettify group:
  \<^verbatim>\<open>PrettyStream\<close> when \<^verbatim>\<open>args.stream\<close> is set and \<^verbatim>\<open>BufferedPrettyStream\<close> otherwise, with
  the environment, a conversion and the formatting built from the arguments. (4) Else
  \<^verbatim>\<open>EncodedStream\<close>. The four conditions exclude each other and cover every input, and the
  class chosen depends on nothing but the terminal flag, the prettify groups, the stream
  flag and whether the JSON form was asked for.
\<close>

theorem get_stream_type_and_kwargs_first_match:
  "(\<not> stdout_isatty env \<and> prettify args = [] \<longrightarrow>
      get_stream_type_and_kwargs env args =
        (RawStream,
         [(''chunk_size'',
           PyChunkSize (if stream args then CHUNK_SIZE_BY_LINE else CHUNK_SIZE))]))
   \<and> ((stdout_isatty env \<or> prettify args \<noteq> []) \<and> output_format_form args = Some ''JSON'' \<longrightarrow>
      get_stream_type_and_kwargs env args =
        (BaseStreamJson, [(''on_body_chunk_downloaded'', PyNone)]))
   \<and> ((stdout_isatty env \<or> prettify args \<noteq> []) \<and> output_format_form args \<noteq> Some ''JSON''
        \<and> prettify args \<noteq> [] \<longrightarrow>
      get_stream_type_and_kwargs env args =
        (if stream args then PrettyStream else BufferedPrettyStream,
         [(''env'', PyEnv env),
          (''conversion'', PyConversion),
          (''formatting'',
           PyFormatting
             (Formatting env (prettify args) (style args) (json args) (format_options args)))]))
   \<and> ((stdout_isatty env \<or> prettify args \<noteq> []) \<and> output_format_form args \<noteq> Some ''JSON''
        \<and> prettify args = [] \<longrightarrow>
      get_stream_type_and_kwargs env args = (EncodedStream, [(''env'', PyEnv env)]))
   \<and> (stdout_isatty env = stdout_isatty env' \<and> prettify args = prettify args'
        \<and> stream args = stream args'
        \<and> (output_format_form args = Some ''JSON'') = (output_format_form args' = Some ''JSON'')
        \<longrightarrow>
      fst (get_stream_type_and_kwargs env args) = fst (get_stream_type_and_kwargs env' args'))"
  by (simp add: get_stream_type_and_kwargs_def)

theorem get_stream_type_and_kwargs_first_match_witness:
  "get_stream_type_and_kwargs
     \<lparr>stdout = 1, stderr = 2, stdout_isatty = False, is_windows = False\<rparr>
     \<lparr>prettify = [], stream = False, debug = False, traceback = False,
      output_format_form = Some ''JSON'', style = ''auto'', json = False,
      format_options = []\<rparr>
     = (RawStream, [(''chunk_size'', PyChunkSize CHUNK_SIZE)])
   \<and> get_stream_type_and_kwargs
     \<lparr>stdout = 1, stderr = 2, stdout_isatty = True, is_windows = False\<rparr>
     \<lparr>prettify = [''colors''], stream = True, debug = False, traceback = False,
      output_format_form = Some ''JSON'', style = ''auto'', json = False,
      format_options = []\<rparr>
     = (BaseStreamJson, [(''on_body_chunk_downloaded'', PyNone)])
   \<and> fst (get_stream_type_and_kwargs
     \<lparr>stdout = 1, stderr = 2, stdout_isatty = False, is_windows = False\<rparr>
     \<lparr>prettify = [''colors''], stream = True, debug = False, traceback = False,
      output_format_form = None, style = ''auto'', json = False,
      format_options = []\<rparr>) = PrettyStream
   \<and> get_stream_type_and_kwargs
     \<lparr>stdout = 1, stderr = 2, stdout_isatty = True, is_windows = False\<rparr>
     \<lparr>prettify = [], stream = False, debug = False, traceback = False,
      output_format_form = None, style = ''auto'', json = False,
      format_options = []\<rparr>
     = (EncodedStream,
        [(''env'', PyEnv \<lparr>stdout = 1, stderr = 2, stdout_isatty = True, is_windows = False\<rparr>)])"
  using
    get_stream_type_and_kwargs_first_match
      [of "\<lparr>stdout = 1, stderr = 2, stdout_isatty = False, is_windows = False\<rparr>"
          "\<lparr>prettify = [], stream = False, debug = False, traceback = False,
            output_format_form = Some ''JSON'', style = ''auto'', json = False,
            format_options = []\<rparr>"]
    get_stream_type_and_kwargs_first_match
      [of "\<lparr>stdout = 1, stderr = 2, stdout_isatty = True, is_windows = False\<rparr>"
          "\<lparr>prettify = [''colors''], stream = True, debug = False, traceback = False,
            output_format_form = Some ''JSON'', style = ''auto'', json = False,
            format_options = []\<rparr>"]
    get_stream_type_and_kwargs_first_match
      [of "\<lparr>stdout = 1, stderr = 2, stdout_isatty = False, is_windows = False\<rparr>"
          "\<lparr>prettify = [''colors''], stream = True, debug = False, traceback = False,
            output_format_form = None, style = ''auto'', json = False,
            format_options = []\<rparr>"]
    get_stream_type_and_kwargs_first_match
      [of "\<lparr>stdout = 1, stderr = 2, stdout_isatty = True, is_windows = False\<rparr>"
          "\<lparr>prettify = [], stream = False, debug = False, traceback = False,
            output_format_form = None, style = ''auto'', json = False,
            format_options = []\<rparr>"]
  by simp

section \<open>Facts about sinks and the writer loops\<close>

lemma sink_op_Inr:
  "sink_op ev s = (Inr u, s') \<Longrightarrow>
     written s' = written s @ [ev] \<and> has_buffer s' = has_buffer s \<and> encoding s' = encoding s
     \<and> pending s' = tl (pending s)"
  by (auto simp: sink_op_def split: list.splits option.splits)

lemma sink_op_Inl:
  "sink_op ev s = (Inl x, s') \<Longrightarrow>
     written s' = written s \<and> has_buffer s' = has_buffer s \<and> encoding s' = encoding s
     \<and> pending s = Some x # pending s'"
  by (auto simp: sink_op_def split: list.splits option.splits)

lemma sink_op_healthy:
  "pending s = [] \<Longrightarrow> sink_op ev s = (Inr (), s\<lparr>written := written s @ [ev]\<rparr>)"
  by (simp add: sink_op_def)

lemma write_stream_json_loop_eq:
  "write_stream_json_loop buf fl cs s = write_stream_loop buf fl cs s"
  by (induction cs arbitrary: s) (auto split: prod.splits sum.splits)

lemma write_stream_loop_complete:
  "write_stream_loop buf fl cs s = (Inr u, s') \<Longrightarrow>
     written s' = written s @ concat (map (\<lambda>c. Write buf (Bytes c) # (if fl then [Flush] else [])) cs)"
proof (induction cs arbitrary: s)
  case Nil
  then show ?case by simp
next
  case (Cons c cs)
  obtain r1 s1 where op1: "sink_op (Write buf (Bytes c)) s = (r1, s1)"
    by (cases "sink_op (Write buf (Bytes c)) s")
  show ?case
  proof (cases r1)
    case (Inl x)
    with Cons.prems op1 show ?thesis by simp
  next
    case (Inr u1)
    with op1 have w1: "written s1 = written s @ [Write buf (Bytes c)]"
      using sink_op_Inr by blast
    show ?thesis
    proof (cases fl)
      case False
      with Cons.prems op1 Inr have "write_stream_loop buf fl cs s1 = (Inr u, s')" by simp
      from Cons.IH[OF this] w1 False show ?thesis by simp
    next
      case True
      obtain r2 s2 where op2: "sink_op Flush s1 = (r2, s2)" by (cases "sink_op Flush s1")
      show ?thesis
      proof (cases r2)
        case (Inl x)
        with Cons.prems op1 op2 Inr True show ?thesis by simp
      next
        case (Inr u2)
        with op2 have w2: "written s2 = written s1 @ [Flush]" using sink_op_Inr by blast
        from Cons.prems op1 op2 \<open>r1 = Inr u1\<close> Inr True
        have "write_stream_loop buf fl cs s2 = (Inr u, s')" by simp
        from Cons.IH[OF this] w1 w2 True show ?thesis by simp
      qed
    qed
  qed
qed

lemma write_stream_loop_prefix:
  "\<exists>k. written (snd (write_stream_loop buf fl cs s)) =
     written s @ take k (concat (map (\<lambda>c. Write buf (Bytes c) # (if fl then [Flush] else [])) cs))"
proof (induction cs arbitrary: s)
  case Nil
  then show ?case by simp
next
  case (Cons c cs)
  obtain r1 s1 where op1: "sink_op (Write buf (Bytes c)) s = (r1, s1)"
    by (cases "sink_op (Write buf (Bytes c)) s")
  show ?case
  proof (cases r1)
    case (Inl x)
    with op1 have "written s1 = written s" using sink_op_Inl by blast
    with op1 Inl show ?thesis by (intro exI[of _ 0]) simp
  next
    case (Inr u1)
    with op1 have w1: "written s1 = written s @ [Write buf (Bytes c)]"
      using sink_op_Inr by blast
    show ?thesis
    proof (cases fl)
      case False
      from Cons.IH[of s1] obtain k where
        "written (snd (write_stream_loop buf fl cs s1)) =
           written s1 @ take k (concat (map (\<lambda>c. Write buf (Bytes c) # (if fl then [Flush] else [])) cs))"
        by blast
      with op1 Inr False w1 show ?thesis by (intro exI[of _ "Suc k"]) simp
    next
      case True
      obtain r2 s2 where op2: "sink_op Flush s1 = (r2, s2)" by (cases "sink_op Flush s1")
      show ?thesis
      proof (cases r2)
        case (Inl x)
        with op2 have "written s2 = written s1" using sink_op_Inl by blast
        with op1 op2 \<open>r1 = Inr u1\<close> Inl True w1 show ?thesis by (intro exI[of _ 1]) simp
      next
        case (Inr u2)
        with op2 have w2: "written s2 = written s1 @ [Flush]" using sink_op_Inr by blast
        from Cons.IH[of s2] obtain k where
          "written (snd (write_stream_loop buf fl cs s2)) =
             written s2 @ take k (concat (map (\<lambda>c. Write buf (Bytes c) # (if fl then [Flush] else [])) cs))"
          by blast
        with op1 op2 \<open>r1 = Inr u1\<close> Inr True w1 w2 show ?thesis
          by (intro exI[of _ "Suc (Suc k)"]) simp
      qed
    qed
  qed
qed

lemma write_stream_loop_healthy:
  "pending s = [] \<Longrightarrow>
     fst (write_stream_loop buf fl cs s) = Inr () \<and> pending (snd (write_stream_loop buf fl cs s)) = []"
proof (induction cs arbitrary: s)
  case Nil
  then show ?case by simp
next
  case (Cons c cs)
  have p1: "pending (s\<lparr>written := written s @ [Write buf (Bytes c)]\<rparr>) = []"
    using Cons.prems by simp
  have p2: "pending (s\<lparr>written := written s @ [Write buf (Bytes c), Flush]\<rparr>) = []"
    using Cons.prems by simp
  show ?case
    using Cons.prems Cons.IH[OF p1] Cons.IH[OF p2]
    by (cases fl) (simp_all add: sink_op_healthy)
qed

section \<open>UTF-8 decoding is inverted by encoding\<close>

lemma char_eq_iff_nat: "(char_of (n::nat) = b) \<longleftrightarrow> (n mod 256 = of_char b)"
  by (metis of_char_of char_of_char)











lemma utf_8_encode_Cons:
  assumes "utf_8_encode_cp c = Inr pre" "utf_8_encode cs = Inr r"
  shows "utf_8_encode (c # cs) = Inr (pre @ r)"
  using assms by simp


section \<open>Rules for evaluating concrete runs\<close>

lemmas run_defs =
  write_message_def write_message_json_def build_output_stream_for_message_def
  build_output_stream_for_message_json_def get_stream_type_and_kwargs_def
  message_class_def message_class_json_def py_index_def getattr_is_body_upload_chunk_def
  spec_streams_def kw_message_def kw_bool_def render_message_def message_of_def
  write_stream_def write_stream_json_def write_stream_with_colors_win_py3_def
  write_colors_chunk_def sink_op_def accepts_def fresh_sink_def sample_env_def
  sample_args_def sample_request_def sample_response_def MESSAGE_SEPARATOR_BYTES_def

lemmas color_defs = color_def sublist_code utf_8_def cons_cp_def is_cont_def


section \<open>Nothing requested, nothing done\<close>

text \<open>
  C3. When neither the headers nor the body are requested, \<^verbatim>\<open>write_message\<close> returns at
  once: it returns normally and leaves every file object as it was, whatever the
  message, the arguments, the stream classes and the state of the sinks (also where the
  selector's class or the producer would raise). \<^verbatim>\<open>write_message_json\<close> does the same when
  its four flags are all false.
\<close>

theorem write_message_nothing_requested:
  "write_message S requests_message env args False False w = (Inr (), w)
   \<and> write_message_json S requests_messages env args False False False False w = (Inr (), w)"
  by (simp add: write_message_def write_message_json_def)

section \<open>The two stream writers are one function\<close>

text \<open>
  C10. \<^verbatim>\<open>write_stream_json\<close> and \<^verbatim>\<open>write_stream\<close> agree on every stream, file object and
  flush flag: the same handle is chosen, the same calls reach the sink in the same
  order, and the same result comes back.
\<close>

theorem write_stream_json_is_write_stream:
  "write_stream_json strm outfile flush = write_stream strm outfile flush"
  by (simp add: write_stream_json_def write_stream_def write_stream_json_loop_eq)

section \<open>Order of writes and flush cadence\<close>

lemma flush_count:
  "length (filter (\<lambda>e. e = Flush)
       (concat (map (\<lambda>c. Write buf (Bytes c) # (if fl then [Flush] else [])) cs)))
     = (if fl then length cs else 0)"
  by (induction cs) auto

lemma writes_in_order:
  "filter (\<lambda>e. e \<noteq> Flush)
       (concat (map (\<lambda>c. Write buf (Bytes c) # (if fl then [Flush] else [])) cs))
     = map (\<lambda>c. Write buf (Bytes c)) cs"
  by (induction cs) auto

lemma write_stream_complete:
  assumes "fst (write_stream (chunks, ex) outfile flush) = Inr ()"
  shows "written (snd (write_stream (chunks, ex) outfile flush)) =
           written outfile @
           concat (map (\<lambda>c. Write (if has_buffer outfile then Buffer else Outfile) (Bytes c)
                              # (if flush then [Flush] else [])) chunks)"
proof -
  let ?buf = "if has_buffer outfile then Buffer else Outfile"
  obtain r s where l: "write_stream_loop ?buf flush chunks outfile = (r, s)"
    by (cases "write_stream_loop ?buf flush chunks outfile")
  from assms l have r: "r = Inr ()"
    by (cases r) (auto simp: write_stream_def split: option.splits)
  from l r have "snd (write_stream (chunks, ex) outfile flush) = s"
    by (auto simp: write_stream_def split: option.splits)
  moreover from l r have "written s = written outfile @
      concat (map (\<lambda>c. Write ?buf (Bytes c) # (if flush then [Flush] else [])) chunks)"
    using write_stream_loop_complete by blast
  ultimately show ?thesis by simp
qed

lemma write_stream_prefix:
  "\<exists>k. written (snd (write_stream (chunks, ex) outfile flush)) =
           written outfile @
           take k (concat (map (\<lambda>c. Write (if has_buffer outfile then Buffer else Outfile) (Bytes c)
                              # (if flush then [Flush] else [])) chunks))"
proof -
  let ?buf = "if has_buffer outfile then Buffer else Outfile"
  have "snd (write_stream (chunks, ex) outfile flush)
          = snd (write_stream_loop ?buf flush chunks outfile)"
    by (auto simp: write_stream_def split: prod.splits sum.splits option.splits)
  then show ?thesis using write_stream_loop_prefix[of ?buf flush chunks outfile] by simp
qed

lemma write_stream_healthy:
  assumes "pending outfile = []"
  shows "fst (write_stream (chunks, None) outfile flush) = Inr ()"
proof -
  let ?buf = "if has_buffer outfile then Buffer else Outfile"
  from write_stream_loop_healthy[OF assms, of ?buf flush chunks]
  show ?thesis
    by (cases "write_stream_loop ?buf flush chunks outfile")
       (auto simp: write_stream_def)
qed

lemma no_flush_without_flag:
  "filter (\<lambda>e. e = Flush)
     (take k (concat (map (\<lambda>c. Write buf (Bytes c) # (if False then [Flush] else [])) cs))) = []"
proof -
  have "\<forall>e\<in>set (concat (map (\<lambda>c. [Write buf (Bytes c)]) cs)). e \<noteq> Flush" by auto
  then have "\<forall>e\<in>set (take k (concat (map (\<lambda>c. [Write buf (Bytes c)]) cs))). e \<noteq> Flush"
    by (meson in_set_takeD)
  then show ?thesis by (simp add: filter_empty_conv)
qed

lemma write_stream_no_flush:
  assumes "\<not> flush"
  shows "filter (\<lambda>e. e = Flush) (written (snd (write_stream (chunks, ex) outfile flush)))
           = filter (\<lambda>e. e = Flush) (written outfile)"
proof -
  obtain k where "written (snd (write_stream (chunks, ex) outfile flush)) =
           written outfile @
           take k (concat (map (\<lambda>c. Write (if has_buffer outfile then Buffer else Outfile) (Bytes c)
                              # (if flush then [Flush] else [])) chunks))"
    using write_stream_prefix by blast
  with assms show ?thesis using no_flush_without_flag by simp
qed

text \<open>
  C8. The calls \<^verbatim>\<open>write_stream\<close> makes are, chunk by chunk and in the order of the chunks,
  one write of the chunk's bytes on the handle resolved at the start, followed by one
  flush when \<^verbatim>\<open>flush\<close> is set. Whatever happens, what the sink has accepted when the call
  ends is what it had before followed by an initial part of that sequence; when the call
  returns normally it is the whole sequence. A sink that raises nothing and a stream
  that ends normally make the call return normally. The writes of the sequence are the
  chunks in order, nothing added or left out; its flushes number one per chunk when
  \<^verbatim>\<open>flush\<close> is set and none otherwise, and without \<^verbatim>\<open>flush\<close> the sink receives no flush
  at all, however the call ends. \<^verbatim>\<open>write_stream_json\<close> behaves alike.
\<close>

theorem write_stream_order_and_flush_cadence:
  "(let buf = (if has_buffer outfile then Buffer else Outfile);
        calls = concat (map (\<lambda>c. Write buf (Bytes c) # (if flush then [Flush] else [])) chunks);
        run = write_stream (chunks, ex) outfile flush
    in (\<exists>k. written (snd run) = written outfile @ take k calls)
       \<and> (fst run = Inr () \<longrightarrow> written (snd run) = written outfile @ calls)
       \<and> (pending outfile = [] \<and> ex = None \<longrightarrow> fst run = Inr ())
       \<and> filter (\<lambda>e. e \<noteq> Flush) calls = map (\<lambda>c. Write buf (Bytes c)) chunks
       \<and> length (filter (\<lambda>e. e = Flush) calls) = (if flush then length chunks else 0)
       \<and> (\<not> flush \<longrightarrow>
            filter (\<lambda>e. e = Flush) (written (snd run))
              = filter (\<lambda>e. e = Flush) (written outfile))
       \<and> write_stream_json (chunks, ex) outfile flush = run)"
  unfolding Let_def
proof (intro conjI impI)
  show "\<exists>k. written (snd (write_stream (chunks, ex) outfile flush)) =
          written outfile @
          take k (concat (map (\<lambda>c. Write (if has_buffer outfile then Buffer else Outfile) (Bytes c)
                                   # (if flush then [Flush] else [])) chunks))"
    by (rule write_stream_prefix)
next
  assume "fst (write_stream (chunks, ex) outfile flush) = Inr ()"
  then show "written (snd (write_stream (chunks, ex) outfile flush)) =
          written outfile @
          concat (map (\<lambda>c. Write (if has_buffer outfile then Buffer else Outfile) (Bytes c)
                            # (if flush then [Flush] else [])) chunks)"
    by (rule write_stream_complete)
next
  assume "pending outfile = [] \<and> ex = None"
  then show "fst (write_stream (chunks, ex) outfile flush) = Inr ()"
    using write_stream_healthy by blast
next
  show "filter (\<lambda>e. e \<noteq> Flush)
          (concat (map (\<lambda>c. Write (if has_buffer outfile then Buffer else Outfile) (Bytes c)
                            # (if flush then [Flush] else [])) chunks))
        = map (\<lambda>c. Write (if has_buffer outfile then Buffer else Outfile) (Bytes c)) chunks"
    by (rule writes_in_order)
next
  show "length (filter (\<lambda>e. e = Flush)
          (concat (map (\<lambda>c. Write (if has_buffer outfile then Buffer else Outfile) (Bytes c)
                            # (if flush then [Flush] else [])) chunks)))
        = (if flush then length chunks else 0)"
    by (rule flush_count)
next
  assume "\<not> flush"
  then show "filter (\<lambda>e. e = Flush) (written (snd (write_stream (chunks, ex) outfile flush)))
              = filter (\<lambda>e. e = Flush) (written outfile)"
    by (rule write_stream_no_flush)
next
  show "write_stream_json (chunks, ex) outfile flush = write_stream (chunks, ex) outfile flush"
    by (simp add: write_stream_json_def write_stream_def write_stream_json_loop_eq)
qed

text \<open>
  Two chunks with and without \<^verbatim>\<open>flush\<close>, and a sink whose third call raises.
\<close>

theorem write_stream_order_and_flush_cadence_witness:
  "fst (write_stream ([''ab'', ''c''], None) (fresh_sink utf_8 []) True) = Inr ()
   \<and> written (snd (write_stream ([''ab'', ''c''], None) (fresh_sink utf_8 []) True))
       = [Write Buffer (Bytes ''ab''), Flush, Write Buffer (Bytes ''c''), Flush]
   \<and> written (snd (write_stream_json ([''ab'', ''c''], None) (fresh_sink utf_8 []) False))
       = [Write Buffer (Bytes ''ab''), Write Buffer (Bytes ''c'')]
   \<and> written (snd (write_stream ([''ab'', ''c''], None)
                      (fresh_sink utf_8 [None, None, Some (IOError (Some EPIPE))]) True))
       = [Write Buffer (Bytes ''ab''), Flush]"
  using
    write_stream_order_and_flush_cadence
      [of "fresh_sink utf_8 []" True "[''ab'', ''c'']" None]
    write_stream_order_and_flush_cadence
      [of "fresh_sink utf_8 []" False "[''ab'', ''c'']" None]
  by (simp add: write_stream_def write_stream_json_def fresh_sink_def sink_op_def)

section \<open>Broken pipes and other I/O errors\<close>

lemma sink_op_accepts:
  "accepts s \<Longrightarrow> fst (sink_op ev s) = Inr () \<and> written (snd (sink_op ev s)) = written s @ [ev]"
  by (auto simp: accepts_def sink_op_def split: list.splits option.splits)

text \<open>
  C2, as far as it holds. Let the writer, run on the output file object, raise \<^verbatim>\<open>IOError\<close>
  with errno \<open>e\<close> (raised by the sink or by the stream being read). If \<open>e\<close> is \<^verbatim>\<open>EPIPE\<close> and
  neither \<^verbatim>\<open>args.debug\<close> nor \<^verbatim>\<open>args.traceback\<close> is set, the error is not raised again: the
  one thing the call still does is write a newline to \<^verbatim>\<open>env.stderr\<close>, and the outcome of the
  call is the outcome of that write; provided \<^verbatim>\<open>env.stderr\<close> accepts it, the call returns
  normally and \<^verbatim>\<open>env.stderr\<close> has received exactly that one newline more. If \<open>e\<close> is \<^verbatim>\<open>EPIPE\<close>
  and one of the two flags is set, or if \<open>e\<close> is anything else, the same \<^verbatim>\<open>IOError\<close> is raised
  again and nothing is written to \<^verbatim>\<open>env.stderr\<close>. This holds for \<^verbatim>\<open>write_message\<close> and for
  \<^verbatim>\<open>write_message_json\<close>.
\<close>

theorem io_error_classification:
  "(let run = (if is_windows env \<and> ''colors'' \<in> set (prettify args)
               then write_stream_with_colors_win_py3
                      (build_output_stream_for_message S args env requests_message
                         with_headers with_body)
                      (w (stdout env)) (stdout_isatty env \<or> stream args)
               else write_stream
                      (build_output_stream_for_message S args env requests_message
                         with_headers with_body)
                      (w (stdout env)) (stdout_isatty env \<or> stream args));
        w1 = w(stdout env := snd run);
        newline = sink_op (Write Outfile (Text [10])) (w1 (stderr env));
        result = write_message S requests_message env args with_headers with_body w
    in (with_body \<or> with_headers) \<and> fst run = Inl (IOError e) \<longrightarrow>
         (e = Some EPIPE \<and> \<not> debug args \<and> \<not> traceback args \<longrightarrow>
            result = (fst newline, w1(stderr env := snd newline))
            \<and> (accepts (w1 (stderr env)) \<longrightarrow>
                 fst result = Inr ()
                 \<and> written (snd result (stderr env))
                     = written (w1 (stderr env)) @ [Write Outfile (Text [10])]))
         \<and> (e = Some EPIPE \<and> (debug args \<or> traceback args) \<longrightarrow>
              result = (Inl (IOError e), w1))
         \<and> (e \<noteq> Some EPIPE \<longrightarrow> result = (Inl (IOError e), w1)))
   \<and>
   (let run = write_stream_json
                (build_output_stream_for_message_json S args env requests_messages
                   with_headers_req with_body_req with_headers_res with_body_res)
                (w (stdout env)) (stdout_isatty env \<or> stream args);
        w1 = w(stdout env := snd run);
        newline = sink_op (Write Outfile (Text [10])) (w1 (stderr env));
        result = write_message_json S requests_messages env args
                   with_headers_req with_body_req with_headers_res with_body_res w
    in (with_body_req \<or> with_headers_req \<or> with_body_res \<or> with_headers_res)
         \<and> fst run = Inl (IOError e) \<longrightarrow>
         (e = Some EPIPE \<and> \<not> debug args \<and> \<not> traceback args \<longrightarrow>
            result = (fst newline, w1(stderr env := snd newline))
            \<and> (accepts (w1 (stderr env)) \<longrightarrow>
                 fst result = Inr ()
                 \<and> written (snd result (stderr env))
                     = written (w1 (stderr env)) @ [Write Outfile (Text [10])]))
         \<and> (e = Some EPIPE \<and> (debug args \<or> traceback args) \<longrightarrow>
              result = (Inl (IOError e), w1))
         \<and> (e \<noteq> Some EPIPE \<longrightarrow> result = (Inl (IOError e), w1)))"
proof (rule conjI)
  let ?run = "(if is_windows env \<and> ''colors'' \<in> set (prettify args)
               then write_stream_with_colors_win_py3
                      (build_output_stream_for_message S args env requests_message
                         with_headers with_body)
                      (w (stdout env)) (stdout_isatty env \<or> stream args)
               else write_stream
                      (build_output_stream_for_message S args env requests_message
                         with_headers with_body)
                      (w (stdout env)) (stdout_isatty env \<or> stream args))"
  obtain r s where run: "?run = (r, s)" by (cases ?run)
  show "(let run = ?run;
        w1 = w(stdout env := snd run);
        newline = sink_op (Write Outfile (Text [10])) (w1 (stderr env));
        result = write_message S requests_message env args with_headers with_body w
    in (with_body \<or> with_headers) \<and> fst run = Inl (IOError e) \<longrightarrow>
         (e = Some EPIPE \<and> \<not> debug args \<and> \<not> traceback args \<longrightarrow>
            result = (fst newline, w1(stderr env := snd newline))
            \<and> (accepts (w1 (stderr env)) \<longrightarrow>
                 fst result = Inr ()
                 \<and> written (snd result (stderr env))
                     = written (w1 (stderr env)) @ [Write Outfile (Text [10])]))
         \<and> (e = Some EPIPE \<and> (debug args \<or> traceback args) \<longrightarrow>
              result = (Inl (IOError e), w1))
         \<and> (e \<noteq> Some EPIPE \<longrightarrow> result = (Inl (IOError e), w1)))"
    unfolding run Let_def
    using run sink_op_accepts[of "(w(stdout env := s)) (stderr env)" "Write Outfile (Text [10])"]
    by (auto simp: write_message_def Let_def split: prod.splits)
next
  let ?run = "write_stream_json
                (build_output_stream_for_message_json S args env requests_messages
                   with_headers_req with_body_req with_headers_res with_body_res)
                (w (stdout env)) (stdout_isatty env \<or> stream args)"
  obtain r s where run: "?run = (r, s)" by (cases ?run)
  show "(let run = ?run;
        w1 = w(stdout env := snd run);
        newline = sink_op (Write Outfile (Text [10])) (w1 (stderr env));
        result = write_message_json S requests_messages env args
                   with_headers_req with_body_req with_headers_res with_body_res w
    in (with_body_req \<or> with_headers_req \<or> with_body_res \<or> with_headers_res)
         \<and> fst run = Inl (IOError e) \<longrightarrow>
         (e = Some EPIPE \<and> \<not> debug args \<and> \<not> traceback args \<longrightarrow>
            result = (fst newline, w1(stderr env := snd newline))
            \<and> (accepts (w1 (stderr env)) \<longrightarrow>
                 fst result = Inr ()
                 \<and> written (snd result (stderr env))
                     = written (w1 (stderr env)) @ [Write Outfile (Text [10])]))
         \<and> (e = Some EPIPE \<and> (debug args \<or> traceback args) \<longrightarrow>
              result = (Inl (IOError e), w1))
         \<and> (e \<noteq> Some EPIPE \<longrightarrow> result = (Inl (IOError e), w1)))"
    unfolding run Let_def
    using run sink_op_accepts[of "(w(stdout env := s)) (stderr env)" "Write Outfile (Text [10])"]
    by (auto simp: write_message_json_def Let_def split: prod.splits)
qed

text \<open>
  A sink whose second call raises \<^verbatim>\<open>EPIPE\<close>, without and with \<^verbatim>\<open>args.debug\<close>, and a sink whose
  first call raises errno 28.
\<close>

theorem io_error_classification_witness:
  "(let w0 = (\<lambda>n. fresh_sink utf_8 [])
               (1 := fresh_sink utf_8 [None, Some (IOError (Some EPIPE))]);
        quiet = write_message spec_streams (sample_response ''hello'') (sample_env False False)
                  (sample_args [] False None False) True True w0;
        loud = write_message spec_streams (sample_response ''hello'') (sample_env False False)
                  (sample_args [] False None True) True True w0
    in fst (write_stream
              (build_output_stream_for_message spec_streams (sample_args [] False None False)
                 (sample_env False False) (sample_response ''hello'') True True)
              (w0 1) False) = Inl (IOError (Some EPIPE))
       \<and> fst quiet = Inr ()
       \<and> written (snd quiet 2) = [Write Outfile (Text [10])]
       \<and> written (snd quiet 1) = [Write Buffer (Bytes ''HTTP/1.1 200 OK'')]
       \<and> loud = (Inl (IOError (Some EPIPE)),
                  w0(1 := \<lparr>has_buffer = True, encoding = Some utf_8,
                            written = [Write Buffer (Bytes ''HTTP/1.1 200 OK'')],
                            pending = []\<rparr>)))
   \<and>
   (let w0 = (\<lambda>n. fresh_sink utf_8 [])(1 := fresh_sink utf_8 [Some (IOError (Some 28))]);
        full = write_message_json spec_streams [sample_request, sample_response ''hello'']
                 (sample_env False False) (sample_args [] False (Some ''JSON'') False)
                 True True True True w0
    in full = (Inl (IOError (Some 28)),
               w0(1 := \<lparr>has_buffer = True, encoding = Some utf_8, written = [],
                         pending = []\<rparr>)))"
proof -
  let ?w0 = "(\<lambda>n. fresh_sink utf_8 [])
               (1 := fresh_sink utf_8 [None, Some (IOError (Some EPIPE))])"
  let ?s1 = "\<lparr>has_buffer = True, encoding = Some utf_8,
              written = [Write Buffer (Bytes ''HTTP/1.1 200 OK'')], pending = []\<rparr>"
  have run: "write_stream
              (build_output_stream_for_message spec_streams (sample_args [] False None dbg)
                 (sample_env False False) (sample_response ''hello'') True True)
              (?w0 1) False = (Inl (IOError (Some EPIPE)), ?s1)" for dbg
    by (simp add: run_defs)
  have quiet:
    "fst (write_message spec_streams (sample_response ''hello'') (sample_env False False)
            (sample_args [] False None False) True True ?w0) = Inr ()
     \<and> written (snd (write_message spec_streams (sample_response ''hello'')
            (sample_env False False) (sample_args [] False None False) True True ?w0) 2)
         = [Write Outfile (Text [10])]
     \<and> written (snd (write_message spec_streams (sample_response ''hello'')
            (sample_env False False) (sample_args [] False None False) True True ?w0) 1)
         = [Write Buffer (Bytes ''HTTP/1.1 200 OK'')]"
    using
      io_error_classification
        [where S = spec_streams and requests_message = "sample_response ''hello''"
           and env = "sample_env False False" and args = "sample_args [] False None False"
           and with_headers = True and with_body = True and e = "Some EPIPE" and w = ?w0,
         THEN conjunct1]
      run[of False]
    by (simp add: Let_def sample_env_def sample_args_def accepts_def fresh_sink_def sink_op_def)
  have loud:
    "write_message spec_streams (sample_response ''hello'') (sample_env False False)
            (sample_args [] False None True) True True ?w0
       = (Inl (IOError (Some EPIPE)), ?w0(1 := ?s1))"
    using
      io_error_classification
        [where S = spec_streams and requests_message = "sample_response ''hello''"
           and env = "sample_env False False" and args = "sample_args [] False None True"
           and with_headers = True and with_body = True and e = "Some EPIPE" and w = ?w0,
         THEN conjunct1]
      run[of True]
    by (simp add: Let_def sample_env_def sample_args_def)
  let ?w2 = "(\<lambda>n. fresh_sink utf_8 [])(1 := fresh_sink utf_8 [Some (IOError (Some 28))])"
  let ?s2 = "\<lparr>has_buffer = True, encoding = Some utf_8, written = [], pending = []\<rparr>"
  have run2: "write_stream_json
              (build_output_stream_for_message_json spec_streams
                 (sample_args [] False (Some ''JSON'') False) (sample_env False False)
                 [sample_request, sample_response ''hello''] True True True True)
              (?w2 1) False = (Inl (IOError (Some 28)), ?s2)"
    by (simp add: run_defs)
  have full:
    "write_message_json spec_streams [sample_request, sample_response ''hello'']
                 (sample_env False False) (sample_args [] False (Some ''JSON'') False)
                 True True True True ?w2
       = (Inl (IOError (Some 28)), ?w2(1 := ?s2))"
    using
      io_error_classification
        [where S = spec_streams
           and requests_messages = "[sample_request, sample_response ''hello'']"
           and env = "sample_env False False"
           and args = "sample_args [] False (Some ''JSON'') False"
           and with_headers_req = True and with_body_req = True
           and with_headers_res = True and with_body_res = True
           and e = "Some 28" and w = ?w2,
         THEN conjunct2]
      run2
    by (simp add: Let_def sample_env_def sample_args_def EPIPE_def)
  show ?thesis
    unfolding Let_def using run[of False] quiet loud full by simp
qed

text \<open>
  C2 as stated fails when \<^verbatim>\<open>env.stderr\<close> does not accept the newline: the write in the
  handler is not guarded, so what it raises leaves the call, and no newline has been
  written. First with two file objects, \<^verbatim>\<open>env.stderr\<close> on a closed pipe as well; then with
  \<^verbatim>\<open>env.stdout\<close> and \<^verbatim>\<open>env.stderr\<close> one object, as with \<^verbatim>\<open>--download\<close>; then for
  \<^verbatim>\<open>write_message_json\<close>. In each run the writer raises \<^verbatim>\<open>EPIPE\<close> and neither flag is set.
\<close>

theorem io_error_classification_counterexample:
  "(let w0 = (\<lambda>n. fresh_sink utf_8 [])
               (1 := fresh_sink utf_8 [None, Some (IOError (Some EPIPE))],
                2 := fresh_sink utf_8 [Some (IOError (Some EPIPE))]);
        env = sample_env False False;
        args = sample_args [] False None False;
        result = write_message spec_streams (sample_response ''hello'') env args True True w0
    in \<not> debug args \<and> \<not> traceback args
       \<and> fst (write_stream
                (build_output_stream_for_message spec_streams args env
                   (sample_response ''hello'') True True)
                (w0 (stdout env)) (stdout_isatty env \<or> stream args))
           = Inl (IOError (Some EPIPE))
       \<and> fst result = Inl (IOError (Some EPIPE))
       \<and> written (snd result (stderr env)) = [])
   \<and>
   (let w0 = (\<lambda>n. fresh_sink utf_8 [])
               (1 := fresh_sink utf_8
                       [None, Some (IOError (Some EPIPE)), Some (IOError (Some EPIPE))]);
        env = \<lparr>stdout = 1, stderr = 1, stdout_isatty = False, is_windows = False\<rparr>;
        args = sample_args [] False None False;
        result = write_message spec_streams (sample_response ''hello'') env args True True w0
    in \<not> debug args \<and> \<not> traceback args
       \<and> fst (write_stream
                (build_output_stream_for_message spec_streams args env
                   (sample_response ''hello'') True True)
                (w0 (stdout env)) (stdout_isatty env \<or> stream args))
           = Inl (IOError (Some EPIPE))
       \<and> fst result = Inl (IOError (Some EPIPE))
       \<and> written (snd result (stderr env)) = [Write Buffer (Bytes ''HTTP/1.1 200 OK'')])
   \<and>
   (let w0 = (\<lambda>n. fresh_sink utf_8 [])
               (1 := fresh_sink utf_8 [None, Some (IOError (Some EPIPE))],
                2 := fresh_sink utf_8 [Some (IOError (Some EPIPE))]);
        env = sample_env False False;
        args = sample_args [] False (Some ''JSON'') False;
        result = write_message_json spec_streams [sample_request, sample_response ''hello'']
                   env args True True True True w0
    in \<not> debug args \<and> \<not> traceback args
       \<and> fst (write_stream_json
                (build_output_stream_for_message_json spec_streams args env
                   [sample_request, sample_response ''hello''] True True True True)
                (w0 (stdout env)) (stdout_isatty env \<or> stream args))
           = Inl (IOError (Some EPIPE))
       \<and> fst result = Inl (IOError (Some EPIPE))
       \<and> written (snd result (stderr env)) = [])"
  by (simp add: run_defs Let_def)

section \<open>The trailing separator\<close>

text \<open>\<^verbatim>\<open>MESSAGE_SEPARATOR_BYTES\<close> is \<^verbatim>\<open>MESSAGE_SEPARATOR.encode()\<close>.\<close>

lemma message_separator_bytes_encoded:
  "utf_8_encode MESSAGE_SEPARATOR = Inr MESSAGE_SEPARATOR_BYTES"
  by (simp add: MESSAGE_SEPARATOR_def MESSAGE_SEPARATOR_BYTES_def utf_8_encode_cp_def
      char_eq_iff_nat)

text \<open>
  C4, as the code has it. For a message whose type is a key of the dictionary,
  \<^verbatim>\<open>build_output_stream_for_message\<close> yields the chunks of the stream object and then, when
  the stream ended normally, output is a terminal, the body was requested and the
  message is not an upload chunk, one more chunk, \<^verbatim>\<open>MESSAGE_SEPARATOR_BYTES\<close>; in every
  other case it yields the chunks of the stream object and nothing else.
  \<^verbatim>\<open>build_output_stream_for_message_json\<close> yields the chunks of the stream object and
  nothing else, whatever the terminal flag and the body flags: it never adds a
  separator.
\<close>

theorem separator_rule:
  "(message_class (msg_type requests_message) = Inr mk
     \<and> S (fst (get_stream_type_and_kwargs env args))
          ([(''msg'', PyMessage (mk requests_message)),
            (''with_headers'', PyBool with_headers),
            (''with_body'', PyBool with_body)] @ snd (get_stream_type_and_kwargs env args))
        = (chunks, ex) \<longrightarrow>
      build_output_stream_for_message S args env requests_message with_headers with_body =
        (chunks @ (if ex = None \<and> stdout_isatty env \<and> with_body
                      \<and> \<not> getattr_is_body_upload_chunk requests_message
                   then [MESSAGE_SEPARATOR_BYTES] else []), ex))
   \<and> (py_index requests_messages 0 = Inr m0 \<and> message_class_json (msg_type m0) = Inr mk0
       \<and> py_index requests_messages 1 = Inr m1 \<and> message_class_json (msg_type m1) = Inr mk1
       \<longrightarrow>
      build_output_stream_for_message_json S args env requests_messages
          with_headers_req with_body_req with_headers_res with_body_res =
        S (fst (get_stream_type_and_kwargs env args))
          ([(''msgReq'', PyMessage (mk0 m0)),
            (''msgRes'', PyMessage (mk1 m1)),
            (''with_headers_req'', PyBool with_headers_req),
            (''with_body_req'', PyBool with_body_req),
            (''with_headers_res'', PyBool with_headers_res),
            (''with_body_res'', PyBool with_body_res)]
           @ snd (get_stream_type_and_kwargs env args)))"
  by (cases ex)
     (auto simp: build_output_stream_for_message_def build_output_stream_for_message_json_def
           split: prod.splits)

text \<open>
  A response on a terminal, redirected, without its body, and as an upload chunk.
\<close>

theorem separator_rule_witness:
  "build_output_stream_for_message spec_streams (sample_args [] False None False)
       (sample_env True False) (sample_response ''hello'') True True
     = ([''HTTP/1.1 200 OK'', ''hello'', MESSAGE_SEPARATOR_BYTES], None)
   \<and> build_output_stream_for_message spec_streams (sample_args [] False None False)
       (sample_env False False) (sample_response ''hello'') True True
     = ([''HTTP/1.1 200 OK'', ''hello''], None)
   \<and> build_output_stream_for_message spec_streams (sample_args [] False None False)
       (sample_env True False) (sample_response ''hello'') True False
     = ([''HTTP/1.1 200 OK''], None)
   \<and> build_output_stream_for_message spec_streams (sample_args [] False None False)
       (sample_env True False)
       ((sample_response ''hello'')\<lparr>is_body_upload_chunk := Some True\<rparr>) False True
     = ([''hello''], None)"
  using
    separator_rule
      [where S = spec_streams and args = "sample_args [] False None False"
         and env = "sample_env True False" and requests_message = "sample_response ''hello''"
         and with_headers = True and with_body = True and mk = HTTPResponse
         and chunks = "[''HTTP/1.1 200 OK'', ''hello'']" and ex = None,
       THEN conjunct1]
  by (simp add: run_defs)

text \<open>
  C4 as stated fails for a request and response pair: on a terminal, with both bodies
  requested and no upload chunk, the last chunk is not the separator.
\<close>

theorem separator_dual_counterexample:
  "stdout_isatty (sample_env True False)
   \<and> \<not> getattr_is_body_upload_chunk sample_request
   \<and> \<not> getattr_is_body_upload_chunk (sample_response ''hello'')
   \<and> build_output_stream_for_message_json spec_streams
        (sample_args [] False (Some ''JSON'') False) (sample_env True False)
        [sample_request, sample_response ''hello''] True True True True
      = ([''GET / HTTP/1.1'', ''ping'', ''HTTP/1.1 200 OK'', ''hello''], None)
   \<and> last [''GET / HTTP/1.1'', ''ping'', ''HTTP/1.1 200 OK'', ''hello'']
        \<noteq> MESSAGE_SEPARATOR_BYTES"
  by (simp add: run_defs)

section \<open>Flush policy and choice of writer\<close>

text \<open>
  C9, as the code has it. A call of \<^verbatim>\<open>write_message\<close> that has something to write runs
  one writer on \<^verbatim>\<open>env.stdout\<close> with \<^verbatim>\<open>flush = env.stdout_isatty or args.stream\<close>:
  \<^verbatim>\<open>write_stream_with_colors_win_py3\<close> when \<^verbatim>\<open>env.is_windows\<close> holds and \<^verbatim>\<open>'colors'\<close> is among
  \<^verbatim>\<open>args.prettify\<close>, and \<^verbatim>\<open>write_stream\<close> otherwise. Every file object other than
  \<^verbatim>\<open>env.stderr\<close> ends as that writer leaves it, and when the writer returns normally so
  does the call, with nothing else changed. A call of \<^verbatim>\<open>write_message_json\<close> that has
  something to write resolves \<^verbatim>\<open>flush\<close> the same way and always runs
  \<^verbatim>\<open>write_stream_json\<close>, the byte-mode writer, also on Windows with \<^verbatim>\<open>'colors'\<close> requested.
\<close>

theorem flush_policy_and_writer_choice:
  "(let run = (if is_windows env \<and> ''colors'' \<in> set (prettify args)
               then write_stream_with_colors_win_py3
                      (build_output_stream_for_message S args env requests_message
                         with_headers with_body)
                      (w (stdout env)) (stdout_isatty env \<or> stream args)
               else write_stream
                      (build_output_stream_for_message S args env requests_message
                         with_headers with_body)
                      (w (stdout env)) (stdout_isatty env \<or> stream args));
        result = write_message S requests_message env args with_headers with_body w
    in with_body \<or> with_headers \<longrightarrow>
         (\<forall>n. n \<noteq> stderr env \<longrightarrow> snd result n = (w(stdout env := snd run)) n)
         \<and> (fst run = Inr () \<longrightarrow> result = (Inr (), w(stdout env := snd run))))
   \<and>
   (let run = write_stream_json
                (build_output_stream_for_message_json S args env requests_messages
                   with_headers_req with_body_req with_headers_res with_body_res)
                (w (stdout env)) (stdout_isatty env \<or> stream args);
        result = write_message_json S requests_messages env args
                   with_headers_req with_body_req with_headers_res with_body_res w
    in with_body_req \<or> with_headers_req \<or> with_body_res \<or> with_headers_res \<longrightarrow>
         (\<forall>n. n \<noteq> stderr env \<longrightarrow> snd result n = (w(stdout env := snd run)) n)
         \<and> (fst run = Inr () \<longrightarrow> result = (Inr (), w(stdout env := snd run))))"
proof (rule conjI)
  let ?run = "(if is_windows env \<and> ''colors'' \<in> set (prettify args)
               then write_stream_with_colors_win_py3
                      (build_output_stream_for_message S args env requests_message
                         with_headers with_body)
                      (w (stdout env)) (stdout_isatty env \<or> stream args)
               else write_stream
                      (build_output_stream_for_message S args env requests_message
                         with_headers with_body)
                      (w (stdout env)) (stdout_isatty env \<or> stream args))"
  obtain r s where run: "?run = (r, s)" by (cases ?run)
  show "(let run = ?run;
        result = write_message S requests_message env args with_headers with_body w
    in with_body \<or> with_headers \<longrightarrow>
         (\<forall>n. n \<noteq> stderr env \<longrightarrow> snd result n = (w(stdout env := snd run)) n)
         \<and> (fst run = Inr () \<longrightarrow> result = (Inr (), w(stdout env := snd run))))"
    unfolding run Let_def using run
    by (auto simp: write_message_def Let_def split: prod.splits sum.splits exn.splits)
next
  let ?run = "write_stream_json
                (build_output_stream_for_message_json S args env requests_messages
                   with_headers_req with_body_req with_headers_res with_body_res)
                (w (stdout env)) (stdout_isatty env \<or> stream args)"
  obtain r s where run: "?run = (r, s)" by (cases ?run)
  show "(let run = ?run;
        result = write_message_json S requests_messages env args
                   with_headers_req with_body_req with_headers_res with_body_res w
    in with_body_req \<or> with_headers_req \<or> with_body_res \<or> with_headers_res \<longrightarrow>
         (\<forall>n. n \<noteq> stderr env \<longrightarrow> snd result n = (w(stdout env := snd run)) n)
         \<and> (fst run = Inr () \<longrightarrow> result = (Inr (), w(stdout env := snd run))))"
    unfolding run Let_def using run
    by (auto simp: write_message_json_def Let_def split: prod.splits sum.splits exn.splits)
qed

text \<open>
  A colourised body on Windows with and without \<^verbatim>\<open>'colors'\<close> requested, with the stream
  flag, and on a terminal.
\<close>

theorem flush_policy_and_writer_choice_witness:
  "written (snd (write_message spec_streams
                   (sample_response [CHR 0x1B, CHR ''['', CHR ''0'', CHR ''m''])
                   (sample_env False True) (sample_args [''colors''] False None False)
                   False True (\<lambda>n. fresh_sink utf_8 [])) 1)
     = [Write Outfile (Text [27, 91, 48, 109])]
   \<and> written (snd (write_message spec_streams
                   (sample_response [CHR 0x1B, CHR ''['', CHR ''0'', CHR ''m''])
                   (sample_env False False) (sample_args [''colors''] False None False)
                   False True (\<lambda>n. fresh_sink utf_8 [])) 1)
     = [Write Buffer (Bytes [CHR 0x1B, CHR ''['', CHR ''0'', CHR ''m''])]
   \<and> written (snd (write_message spec_streams
                   (sample_response [CHR 0x1B, CHR ''['', CHR ''0'', CHR ''m''])
                   (sample_env False True) (sample_args [''colors''] True None False)
                   False True (\<lambda>n. fresh_sink utf_8 [])) 1)
     = [Write Outfile (Text [27, 91, 48, 109]), Flush]
   \<and> written (snd (write_message spec_streams
                   (sample_response [CHR 0x1B, CHR ''['', CHR ''0'', CHR ''m''])
                   (sample_env True True) (sample_args [''format''] False None False)
                   False True (\<lambda>n. fresh_sink utf_8 [])) 1)
     = [Write Buffer (Bytes [CHR 0x1B, CHR ''['', CHR ''0'', CHR ''m'']), Flush,
        Write Buffer (Bytes MESSAGE_SEPARATOR_BYTES), Flush]"
  using
    flush_policy_and_writer_choice
      [where S = spec_streams
         and requests_message = "sample_response [CHR 0x1B, CHR ''['', CHR ''0'', CHR ''m'']"
         and env = "sample_env False True"
         and args = "sample_args [''colors''] False None False"
         and with_headers = False and with_body = True
         and w = "\<lambda>n. fresh_sink utf_8 []",
       THEN conjunct1]
  by (simp add: run_defs color_defs Let_def)

text \<open>
  C9 as stated fails for \<^verbatim>\<open>write_message_json\<close>: on Windows with \<^verbatim>\<open>'colors'\<close>
  requested it writes the colourised chunk as bytes to the buffer, where the
  colour-split writer would have written it as text.
\<close>

theorem writer_choice_json_counterexample:
  "is_windows (sample_env False True)
   \<and> ''colors'' \<in> set (prettify (sample_args [''colors''] False (Some ''JSON'') False))
   \<and> written (snd (write_message_json spec_streams
                   [sample_request,
                    sample_response [CHR 0x1B, CHR ''['', CHR ''0'', CHR ''m'']]
                   (sample_env False True)
                   (sample_args [''colors''] False (Some ''JSON'') False)
                   False False False True (\<lambda>n. fresh_sink utf_8 [])) 1)
      = [Write Buffer (Bytes [CHR 0x1B, CHR ''['', CHR ''0'', CHR ''m''])]
   \<and> written (snd (write_stream_with_colors_win_py3
                   (build_output_stream_for_message_json spec_streams
                      (sample_args [''colors''] False (Some ''JSON'') False)
                      (sample_env False True)
                      [sample_request,
                       sample_response [CHR 0x1B, CHR ''['', CHR ''0'', CHR ''m'']]
                      False False False True)
                   (fresh_sink utf_8 []) False))
      = [Write Outfile (Text [27, 91, 48, 109])]"
  by (simp add: run_defs color_defs Let_def)

section \<open>The colour-split writer\<close>

lemma write_colors_chunk_Inr:
  assumes "write_colors_chunk enc c s = (Inr u, s')"
  shows "written s' = written s @
           (if sublist color c
            then (case decode enc c of Inl x \<Rightarrow> [] | Inr t \<Rightarrow> [Write Outfile (Text t)])
            else [Write Buffer (Bytes c)])"
    and "sublist color c \<Longrightarrow> \<exists>t. decode enc c = Inr t"
    and "\<not> sublist color c \<Longrightarrow> has_buffer s"
    and "has_buffer s' = has_buffer s"
  using assms sink_op_Inr
  by (auto simp: write_colors_chunk_def split: if_splits sum.splits)

lemma write_colors_chunk_Inl:
  assumes "write_colors_chunk enc c s = (Inl x, s')"
  shows "written s' = written s"
  using assms sink_op_Inl
  by (auto simp: write_colors_chunk_def split: if_splits sum.splits)

lemma write_colors_chunk_healthy:
  assumes "pending s = []" "has_buffer s" "sublist color c \<Longrightarrow> \<exists>t. decode enc c = Inr t"
  shows "\<exists>s'. write_colors_chunk enc c s = (Inr (), s') \<and> pending s' = [] \<and> has_buffer s'"
  using assms by (auto simp: write_colors_chunk_def sink_op_def)

lemma write_colors_loop_complete:
  "write_colors_loop enc fl cs s = (Inr u, s') \<Longrightarrow>
     written s' = written s @
       concat (map (\<lambda>c. (if sublist color c
                          then (case decode enc c of
                                  Inl x \<Rightarrow> [] | Inr t \<Rightarrow> [Write Outfile (Text t)])
                          else [Write Buffer (Bytes c)])
                         @ (if fl then [Flush] else [])) cs)
     \<and> (\<forall>c\<in>set cs. sublist color c \<longrightarrow> (\<exists>t. decode enc c = Inr t))
     \<and> (\<forall>c\<in>set cs. \<not> sublist color c \<longrightarrow> has_buffer s)"
proof (induction cs arbitrary: s)
  case Nil
  then show ?case by simp
next
  case (Cons c cs)
  obtain r1 s1 where op1: "write_colors_chunk enc c s = (r1, s1)"
    by (cases "write_colors_chunk enc c s")
  show ?case
  proof (cases r1)
    case (Inl x)
    with Cons.prems op1 show ?thesis by simp
  next
    case (Inr u1)
    note c1 = write_colors_chunk_Inr[OF op1[unfolded Inr]]
    show ?thesis
    proof (cases fl)
      case False
      with Cons.prems op1 Inr have "write_colors_loop enc fl cs s1 = (Inr u, s')" by simp
      from Cons.IH[OF this] c1 False show ?thesis by auto
    next
      case True
      obtain r2 s2 where op2: "sink_op Flush s1 = (r2, s2)" by (cases "sink_op Flush s1")
      show ?thesis
      proof (cases r2)
        case (Inl x)
        with Cons.prems op1 op2 \<open>r1 = Inr u1\<close> True show ?thesis by simp
      next
        case (Inr u2)
        with op2 have w2: "written s2 = written s1 @ [Flush]" "has_buffer s2 = has_buffer s1"
          using sink_op_Inr by blast+
        from Cons.prems op1 op2 \<open>r1 = Inr u1\<close> Inr True
        have "write_colors_loop enc fl cs s2 = (Inr u, s')" by simp
        from Cons.IH[OF this] c1 w2 True show ?thesis by auto
      qed
    qed
  qed
qed

lemma write_colors_loop_prefix:
  "\<exists>k. written (snd (write_colors_loop enc fl cs s)) =
     written s @
       take k (concat (map (\<lambda>c. (if sublist color c
                          then (case decode enc c of
                                  Inl x \<Rightarrow> [] | Inr t \<Rightarrow> [Write Outfile (Text t)])
                          else [Write Buffer (Bytes c)])
                         @ (if fl then [Flush] else [])) cs))"
proof (induction cs arbitrary: s)
  case Nil
  then show ?case by simp
next
  case (Cons c cs)
  let ?one = "\<lambda>c. (if sublist color c
                          then (case decode enc c of
                                  Inl x \<Rightarrow> [] | Inr t \<Rightarrow> [Write Outfile (Text t)])
                          else [Write Buffer (Bytes c)])"
  let ?calls = "\<lambda>cs. concat (map (\<lambda>c. ?one c @ (if fl then [Flush] else [])) cs)"
  obtain r1 s1 where op1: "write_colors_chunk enc c s = (r1, s1)"
    by (cases "write_colors_chunk enc c s")
  show ?case
  proof (cases r1)
    case (Inl x)
    with op1 have "written s1 = written s" using write_colors_chunk_Inl by blast
    with op1 Inl show ?thesis by (intro exI[of _ 0]) simp
  next
    case (Inr u1)
    note c1 = write_colors_chunk_Inr[OF op1[unfolded Inr]]
    from c1(1,2) obtain ev where ev: "?one c = [ev]" "written s1 = written s @ [ev]"
      by (cases "sublist color c") auto
    show ?thesis
    proof (cases fl)
      case False
      from Cons.IH[of s1] obtain k where
        "written (snd (write_colors_loop enc fl cs s1)) = written s1 @ take k (?calls cs)"
        by blast
      with op1 Inr False ev show ?thesis by (intro exI[of _ "Suc k"]) simp
    next
      case True
      obtain r2 s2 where op2: "sink_op Flush s1 = (r2, s2)" by (cases "sink_op Flush s1")
      show ?thesis
      proof (cases r2)
        case (Inl x)
        with op2 have "written s2 = written s1" using sink_op_Inl by blast
        with op1 op2 \<open>r1 = Inr u1\<close> Inl True ev show ?thesis by (intro exI[of _ 1]) simp
      next
        case (Inr u2)
        with op2 have w2: "written s2 = written s1 @ [Flush]" using sink_op_Inr by blast
        from Cons.IH[of s2] obtain k where
          "written (snd (write_colors_loop enc fl cs s2)) = written s2 @ take k (?calls cs)"
          by blast
        with op1 op2 \<open>r1 = Inr u1\<close> Inr True ev w2 show ?thesis
          by (intro exI[of _ "Suc (Suc k)"]) simp
      qed
    qed
  qed
qed

lemma write_colors_loop_healthy:
  assumes "pending s = []" "has_buffer s"
    and "\<forall>c\<in>set cs. sublist color c \<longrightarrow> (\<exists>t. decode enc c = Inr t)"
  shows "fst (write_colors_loop enc fl cs s) = Inr ()"
  using assms
proof (induction cs arbitrary: s)
  case Nil
  then show ?case by simp
next
  case (Cons c cs)
  from Cons.prems obtain s1 where
    s1: "write_colors_chunk enc c s = (Inr (), s1)" "pending s1 = []" "has_buffer s1"
    using write_colors_chunk_healthy[of s c enc] by auto
  have rest: "\<forall>c\<in>set cs. sublist color c \<longrightarrow> (\<exists>t. decode enc c = Inr t)"
    using Cons.prems(3) by simp
  show ?case
  proof (cases fl)
    case False
    with s1 Cons.IH[OF s1(2,3) rest] show ?thesis by simp
  next
    case True
    have f: "sink_op Flush s1 = (Inr (), s1\<lparr>written := written s1 @ [Flush]\<rparr>)"
      using s1(2) by (rule sink_op_healthy)
    have "fst (write_colors_loop enc fl cs (s1\<lparr>written := written s1 @ [Flush]\<rparr>)) = Inr ()"
      using s1(2,3) rest by (intro Cons.IH) simp_all
    with s1 f True show ?thesis by simp
  qed
qed

lemma one_write_per_chunk:
  assumes "\<forall>c\<in>set cs. sublist color c \<longrightarrow> (\<exists>t. decode enc c = Inr t)"
  shows "length (filter (\<lambda>e. e \<noteq> Flush)
           (concat (map (\<lambda>c. (if sublist color c
                          then (case decode enc c of
                                  Inl x \<Rightarrow> [] | Inr t \<Rightarrow> [Write Outfile (Text t)])
                          else [Write Buffer (Bytes c)])
                         @ (if fl then [Flush] else [])) cs))) = length cs"
  using assms by (induction cs) auto

lemma write_stream_with_colors_complete:
  assumes enc: "encoding outfile = Some enc"
    and ok: "fst (write_stream_with_colors_win_py3 (chunks, ex) outfile flush) = Inr ()"
  shows "written (snd (write_stream_with_colors_win_py3 (chunks, ex) outfile flush))
           = written outfile @
             concat (map (\<lambda>c. (if sublist color c
                                then (case decode enc c of
                                        Inl x \<Rightarrow> []
                                      | Inr t \<Rightarrow> [Write Outfile (Text t)])
                                else [Write Buffer (Bytes c)])
                               @ (if flush then [Flush] else [])) chunks)"
    and "\<forall>c\<in>set chunks. sublist color c \<longrightarrow> (\<exists>t. decode enc c = Inr t)"
    and "\<forall>c\<in>set chunks. \<not> sublist color c \<longrightarrow> has_buffer outfile"
proof -
  obtain r s where l: "write_colors_loop enc flush chunks outfile = (r, s)"
    by (cases "write_colors_loop enc flush chunks outfile")
  have snd_run: "snd (write_stream_with_colors_win_py3 (chunks, ex) outfile flush) = s"
    using enc l by (auto simp: write_stream_with_colors_win_py3_def split: sum.splits option.splits)
  from ok enc l have "r = Inr ()"
    by (cases r) (auto simp: write_stream_with_colors_win_py3_def split: option.splits)
  with l have l': "write_colors_loop enc flush chunks outfile = (Inr (), s)" by simp
  note c = write_colors_loop_complete[OF l']
  from c snd_run
  show "written (snd (write_stream_with_colors_win_py3 (chunks, ex) outfile flush))
           = written outfile @
             concat (map (\<lambda>c. (if sublist color c
                                then (case decode enc c of
                                        Inl x \<Rightarrow> []
                                      | Inr t \<Rightarrow> [Write Outfile (Text t)])
                                else [Write Buffer (Bytes c)])
                               @ (if flush then [Flush] else [])) chunks)"
    by simp
  from c show "\<forall>c\<in>set chunks. sublist color c \<longrightarrow> (\<exists>t. decode enc c = Inr t)" by blast
  from c show "\<forall>c\<in>set chunks. \<not> sublist color c \<longrightarrow> has_buffer outfile" by blast
qed

text \<open>
  C5. For a file object with an \<^verbatim>\<open>encoding\<close>, the calls
  \<^verbatim>\<open>write_stream_with_colors_win_py3\<close> makes are, chunk by chunk: for a chunk that contains
  \<^verbatim>\<open>b'\x1b['\<close>, one write on the file object itself of the whole chunk decoded with that
  encoding; for a chunk that does not, one write of the chunk's own bytes on the buffer;
  then a flush when \<^verbatim>\<open>flush\<close> is set. What the sink has accepted when the call ends is what
  it had before followed by an initial part of that sequence, and the whole sequence
  when the call returns normally: one write per chunk, every chunk with the introducer
  decoded and written as text, every other chunk written unchanged as bytes. The call
  returns normally when the sink raises nothing and has a buffer, the stream ends
  normally and every chunk with the introducer decodes. (A chunk with the introducer
  that does not decode raises the decoder's error and is not written.)
\<close>

theorem color_split_per_chunk:
  "encoding outfile = Some enc \<longrightarrow>
   (let calls = concat (map (\<lambda>c. (if sublist color c
                                   then (case decode enc c of
                                           Inl x \<Rightarrow> []
                                         | Inr t \<Rightarrow> [Write Outfile (Text t)])
                                   else [Write Buffer (Bytes c)])
                                  @ (if flush then [Flush] else [])) chunks);
        run = write_stream_with_colors_win_py3 (chunks, ex) outfile flush
    in (\<exists>k. written (snd run) = written outfile @ take k calls)
       \<and> (fst run = Inr () \<longrightarrow>
            written (snd run) = written outfile @ calls
            \<and> length (filter (\<lambda>e. e \<noteq> Flush) calls) = length chunks
            \<and> (\<forall>c\<in>set chunks. sublist color c \<longrightarrow> (\<exists>t. decode enc c = Inr t))
            \<and> (\<forall>c\<in>set chunks. \<not> sublist color c \<longrightarrow> has_buffer outfile))
       \<and> (pending outfile = [] \<and> has_buffer outfile \<and> ex = None
            \<and> (\<forall>c\<in>set chunks. sublist color c \<longrightarrow> (\<exists>t. decode enc c = Inr t))
           \<longrightarrow> fst run = Inr ()))"
proof (rule impI)
  assume enc: "encoding outfile = Some enc"
  let ?calls = "concat (map (\<lambda>c. (if sublist color c
                                   then (case decode enc c of
                                           Inl x \<Rightarrow> []
                                         | Inr t \<Rightarrow> [Write Outfile (Text t)])
                                   else [Write Buffer (Bytes c)])
                                  @ (if flush then [Flush] else [])) chunks)"
  let ?run = "write_stream_with_colors_win_py3 (chunks, ex) outfile flush"
  obtain r s where l: "write_colors_loop enc flush chunks outfile = (r, s)"
    by (cases "write_colors_loop enc flush chunks outfile")
  have snd_run: "snd ?run = s"
    using enc l by (auto simp: write_stream_with_colors_win_py3_def split: sum.splits option.splits)
  have a: "\<exists>k. written (snd ?run) = written outfile @ take k ?calls"
    using write_colors_loop_prefix[of enc flush chunks outfile] l snd_run by simp
  have b: "written (snd ?run) = written outfile @ ?calls
            \<and> length (filter (\<lambda>e. e \<noteq> Flush) ?calls) = length chunks
            \<and> (\<forall>c\<in>set chunks. sublist color c \<longrightarrow> (\<exists>t. decode enc c = Inr t))
            \<and> (\<forall>c\<in>set chunks. \<not> sublist color c \<longrightarrow> has_buffer outfile)"
    if ok: "fst ?run = Inr ()"
  proof -
    note c = write_stream_with_colors_complete[OF enc ok]
    from c one_write_per_chunk[OF c(2), of flush] show ?thesis by simp
  qed
  have c: "fst ?run = Inr ()"
    if h: "pending outfile = [] \<and> has_buffer outfile \<and> ex = None
            \<and> (\<forall>c\<in>set chunks. sublist color c \<longrightarrow> (\<exists>t. decode enc c = Inr t))"
  proof -
    from h have "fst (write_colors_loop enc flush chunks outfile) = Inr ()"
      by (intro write_colors_loop_healthy) simp_all
    with l enc h show ?thesis
      by (simp add: write_stream_with_colors_win_py3_def)
  qed
  show "(let calls = ?calls; run = ?run
    in (\<exists>k. written (snd run) = written outfile @ take k calls)
       \<and> (fst run = Inr () \<longrightarrow>
            written (snd run) = written outfile @ calls
            \<and> length (filter (\<lambda>e. e \<noteq> Flush) calls) = length chunks
            \<and> (\<forall>c\<in>set chunks. sublist color c \<longrightarrow> (\<exists>t. decode enc c = Inr t))
            \<and> (\<forall>c\<in>set chunks. \<not> sublist color c \<longrightarrow> has_buffer outfile))
       \<and> (pending outfile = [] \<and> has_buffer outfile \<and> ex = None
            \<and> (\<forall>c\<in>set chunks. sublist color c \<longrightarrow> (\<exists>t. decode enc c = Inr t))
           \<longrightarrow> fst run = Inr ()))"
    unfolding Let_def using a b c by blast
qed

text \<open>
  A plain chunk, a colourised chunk and a chunk that is no text at all, in one run; and
  a run with a colourised chunk that does not decode.
\<close>

theorem color_split_per_chunk_witness:
  "fst (write_stream_with_colors_win_py3
          ([''plain'', [CHR 0x1B, CHR ''['', CHR ''0'', CHR ''m''], [CHR 0xFF]], None)
          (fresh_sink utf_8 []) True) = Inr ()
   \<and> written (snd (write_stream_with_colors_win_py3
          ([''plain'', [CHR 0x1B, CHR ''['', CHR ''0'', CHR ''m''], [CHR 0xFF]], None)
          (fresh_sink utf_8 []) True))
       = [Write Buffer (Bytes ''plain''), Flush,
          Write Outfile (Text [27, 91, 48, 109]), Flush,
          Write Buffer (Bytes [CHR 0xFF]), Flush]
   \<and> write_stream_with_colors_win_py3
          ([''plain'', [CHR 0x1B, CHR ''['', CHR 0xFF], ''next''], None)
          (fresh_sink utf_8 []) False
       = (Inl UnicodeDecodeError,
          (fresh_sink utf_8 [])\<lparr>written := [Write Buffer (Bytes ''plain'')]\<rparr>)"
  using
    color_split_per_chunk
      [where outfile = "fresh_sink utf_8 []" and enc = utf_8 and flush = True
         and chunks = "[''plain'', [CHR 0x1B, CHR ''['', CHR ''0'', CHR ''m''], [CHR 0xFF]]"
         and ex = None]
  by (simp add: run_defs color_defs Let_def)

section \<open>Re-encoding what the text path wrote\<close>








section \<open>What the producers hand to the stream classes\<close>

text \<open>
  C6 is not settled by this module: whether a producer raises is decided by the stream
  class it constructs, except for the two look-ups of its own. When output is not a terminal and no prettify group is
  requested, \<^verbatim>\<open>build_output_stream_for_message_json\<close> constructs \<^verbatim>\<open>RawStream\<close>, whatever
  \<^verbatim>\<open>args.output_format_form\<close> is, with the keyword arguments of the pair and \<^verbatim>\<open>chunk_size\<close>,
  and yields what that object yields.
\<close>

theorem dual_producer_constructs_RawStream:
  "\<not> stdout_isatty env \<and> prettify args = []
     \<and> py_index requests_messages 0 = Inr m0 \<and> message_class_json (msg_type m0) = Inr mk0
     \<and> py_index requests_messages 1 = Inr m1 \<and> message_class_json (msg_type m1) = Inr mk1
     \<longrightarrow>
      build_output_stream_for_message_json S args env requests_messages
          with_headers_req with_body_req with_headers_res with_body_res =
        S RawStream
          [(''msgReq'', PyMessage (mk0 m0)),
           (''msgRes'', PyMessage (mk1 m1)),
           (''with_headers_req'', PyBool with_headers_req),
           (''with_body_req'', PyBool with_body_req),
           (''with_headers_res'', PyBool with_headers_res),
           (''with_body_res'', PyBool with_body_res),
           (''chunk_size'',
            PyChunkSize (if stream args then CHUNK_SIZE_BY_LINE else CHUNK_SIZE))]"
  by (auto simp: build_output_stream_for_message_json_def get_stream_type_and_kwargs_def)

theorem dual_producer_constructs_RawStream_witness:
  "build_output_stream_for_message_json spec_streams
       (sample_args [] False (Some ''JSON'') False) (sample_env False False)
       [sample_request, sample_response ''hello''] True True True True
     = spec_streams RawStream
         [(''msgReq'', PyMessage (HTTPRequestJson sample_request)),
          (''msgRes'', PyMessage (HTTPResponseJson (sample_response ''hello''))),
          (''with_headers_req'', PyBool True),
          (''with_body_req'', PyBool True),
          (''with_headers_res'', PyBool True),
          (''with_body_res'', PyBool True),
          (''chunk_size'', PyChunkSize CHUNK_SIZE)]"
  using
    dual_producer_constructs_RawStream
      [where S = spec_streams and args = "sample_args [] False (Some ''JSON'') False"
         and env = "sample_env False False"
         and requests_messages = "[sample_request, sample_response ''hello'']"
         and ?m0.0 = sample_request and ?m1.0 = "sample_response ''hello''"
         and ?mk0.0 = HTTPRequestJson and ?mk1.0 = HTTPResponseJson
         and with_headers_req = True and with_body_req = True
         and with_headers_res = True and with_body_res = True]
  by (simp add: sample_args_def sample_env_def sample_request_def sample_response_def
        py_index_def message_class_json_def)

text \<open>
  A message whose exact type is neither \<^verbatim>\<open>PreparedRequest\<close> nor \<^verbatim>\<open>Response\<close> raises
  \<^verbatim>\<open>KeyError\<close> at the first chunk; \<^verbatim>\<open>write_message\<close> lets it through with nothing written.
\<close>

theorem foreign_message_type_raises_KeyError:
  "msg_type requests_message = OtherType n \<longrightarrow>
      build_output_stream_for_message S args env requests_message with_headers with_body
        = ([], Some KeyError)
      \<and> ((with_body \<or> with_headers) \<and> \<not> (is_windows env \<and> ''colors'' \<in> set (prettify args))
           \<longrightarrow> write_message S requests_message env args with_headers with_body w
                = (Inl KeyError, w))"
proof (intro conjI impI)
  assume t: "msg_type requests_message = OtherType n"
  then show b: "build_output_stream_for_message S args env requests_message with_headers with_body
        = ([], Some KeyError)"
    by (simp add: build_output_stream_for_message_def message_class_def split: prod.splits)
  assume "(with_body \<or> with_headers) \<and> \<not> (is_windows env \<and> ''colors'' \<in> set (prettify args))"
  then show "write_message S requests_message env args with_headers with_body w
             = (Inl KeyError, w)"
    by (auto simp: write_message_def write_stream_def Let_def b)
qed

theorem foreign_message_type_raises_KeyError_witness:
  "write_message spec_streams
       ((sample_response ''hello'')\<lparr>msg_type := OtherType ''MyResponse''\<rparr>)
       (sample_env True False) (sample_args [] False None False) True True
       (\<lambda>n. fresh_sink utf_8 [])
     = (Inl KeyError, \<lambda>n. fresh_sink utf_8 [])"
  using
    foreign_message_type_raises_KeyError
      [where S = spec_streams
         and requests_message = "(sample_response ''hello'')\<lparr>msg_type := OtherType ''MyResponse''\<rparr>"
         and n = "''MyResponse''"
         and env = "sample_env True False" and args = "sample_args [] False None False"
         and with_headers = True and with_body = True
         and w = "\<lambda>n. fresh_sink utf_8 []"]
  by (simp add: sample_response_def sample_env_def sample_args_def)

end
